theory Spec2Isabelle
  imports Complex_Main "HOL-Library.Multiset"
begin

section \<open>Python exceptions\<close>

text \<open>
  Every exception the modelled code can raise is a value of \<open>error\<close>; a fallible
  function returns \<open>error + 'a\<close> with \<open>Inl\<close> for the raised exception.
  \<open>WorkerError\<close> and \<open>KeyboardInterrupt\<close> stand for what a per-layer worker
  raises or for an interruption of the sweep.  \<open>NotANumber\<close> is not a Python
  exception: torch returns NaN for the mean over an empty axis, which a tensor of
  real numbers cannot hold, so the model stops there with this value.
\<close>

datatype error =
    IndexError | KeyError | TypeError | ValueError | AssertionError | RuntimeError
  | WorkerError | KeyboardInterrupt | NotANumber

definition bind_err :: "error + 'a \<Rightarrow> ('a \<Rightarrow> error + 'b) \<Rightarrow> error + 'b" where
  "bind_err m f = (case m of Inl e \<Rightarrow> Inl e | Inr x \<Rightarrow> f x)"

text \<open>Python indexing of a sequence: a negative index counts from the end.\<close>

definition py_index :: "'a list \<Rightarrow> int \<Rightarrow> error + nat" where
  "py_index xs i =
     (let n = int (length xs); j = (if i < 0 then n + i else i)
      in if 0 \<le> j \<and> j < n then Inr (nat j) else Inl IndexError)"

section \<open>The layer orchestrator (run.py)\<close>

subsection \<open>Run.concatenate\<close>

text \<open>
  An entry of \<open>layers\<close>.  \<open>get_layers\<close> is annotated to return a list of ints
  (\<open>Idx\<close>), while \<open>concatenate\<close> subscripts each entry and appends a list to it,
  which needs the entry to be a list of ints (\<open>Idxs\<close>).  Both are values the Python
  list can hold, so both are modelled.
\<close>

datatype unit_of_work = Idx int | Idxs "int list"

text \<open>
  One iteration of the loop body
  \<^verbatim>\<open>layers[layer] = layers[layer] + [layers[layer][0] - offset]\<close>:
  subscripting an int raises TypeError, \<open>[][0]\<close> raises IndexError.
\<close>

definition concatenate_step :: "int \<Rightarrow> unit_of_work list \<Rightarrow> int \<Rightarrow> error + unit_of_work list" where
  "concatenate_step offset layers i =
     (case py_index layers i of
        Inl e \<Rightarrow> Inl e
      | Inr p \<Rightarrow>
          (case layers ! p of
             Idx n \<Rightarrow> Inl TypeError
           | Idxs [] \<Rightarrow> Inl IndexError
           | Idxs (x # xs) \<Rightarrow> Inr (layers[p := Idxs ((x # xs) @ [x - offset])])))"

fun concatenate_loop :: "int \<Rightarrow> int list \<Rightarrow> unit_of_work list \<Rightarrow> error + unit_of_work list" where
  "concatenate_loop offset [] layers = Inr layers"
| "concatenate_loop offset (i # rest) layers =
     (case concatenate_step offset layers i of
        Inl e \<Rightarrow> Inl e
      | Inr layers' \<Rightarrow> concatenate_loop offset rest layers')"

text \<open>\<^verbatim>\<open>for layer in range(offset, len(layers))\<close>\<close>

definition concatenate :: "int \<Rightarrow> unit_of_work list \<Rightarrow> error + unit_of_work list" where
  "concatenate offset layers =
     concatenate_loop offset [offset .. int (length layers) - 1] layers"

text \<open>
  The gate in \<open>apply_to_layers\<close>:
  \<^verbatim>\<open>if self.cfg.concatenated_layer_offset > 0: layers = self.concatenate(layers)\<close>
\<close>

definition resolve_layers :: "int \<Rightarrow> unit_of_work list \<Rightarrow> error + unit_of_work list" where
  "resolve_layers offset layers = (if offset > 0 then concatenate offset layers else Inr layers)"

text \<open>What the loop body does to an entry that is a non-empty list.\<close>

fun with_earlier :: "int \<Rightarrow> unit_of_work \<Rightarrow> unit_of_work" where
  "with_earlier offset (Idxs (x # xs)) = Idxs ((x # xs) @ [x - offset])"
| "with_earlier offset w = w"

fun is_index_list :: "unit_of_work \<Rightarrow> bool" where
  "is_index_list (Idxs (x # xs)) = True"
| "is_index_list w = False"

subsection \<open>Run.apply\_to\_layers\<close>

text \<open>
  A result row is a \<open>pd.Series\<close> with a \<open>layer\<close> entry; the other entries are the
  record's extension.  The output file \<open>eval.csv\<close> is absent, empty (just opened
  for writing) or holds the table \<open>to_csv\<close> wrote.
\<close>

record row =
  layer :: int

datatype 'r csv_file = Absent | Empty | Table "'r list"

record 'r sweep =
  csv :: "'r csv_file"
  raised :: "error option"
  debug_log_saved :: bool

text \<open>
  The results the loop iterates over.  With one device \<open>mapper\<close> is the builtin
  \<open>map\<close>, which calls \<open>func\<close> on the layers in order.  With more devices it is
  \<open>pool.imap_unordered\<close>, which yields the results in the order the tasks complete:
  \<open>completion\<close> is that order, chosen by the scheduler.
\<close>

definition mapper :: "int \<Rightarrow> 'w list \<Rightarrow> ('w \<Rightarrow> error + 'r) \<Rightarrow> 'w list \<Rightarrow> (error + 'r) list" where
  "mapper num_devices completion func layers =
     map func (if num_devices > 1 then completion else layers)"

text \<open>
  The \<open>try\<close> block: rows are appended until the iterator is exhausted or raises.
  The result is \<open>row_buf\<close> and the pending exception.
\<close>

fun collect :: "(error + 'r) list \<Rightarrow> 'r list \<Rightarrow> 'r list \<times> error option" where
  "collect [] row_buf = (row_buf, None)"
| "collect (Inr r # rest) row_buf = collect rest (row_buf @ [r])"
| "collect (Inl e # rest) row_buf = (row_buf, Some e)"

text \<open>
  The \<open>finally\<close> block.  \<open>pd.DataFrame([])\<close> has no columns, so
  \<open>sort_values(by="layer")\<close> raises KeyError on an empty buffer and nothing is
  written; an exception raised in a \<open>finally\<close> block replaces the pending one.
  \<open>DataFrame.sort_values\<close> is a library call and a parameter of the model: its
  default algorithm (quicksort) is not stable, so the order it gives to rows of the
  same layer is not fixed by the program.
\<close>

definition flush ::
  "(('a row_scheme) list \<Rightarrow> ('a row_scheme) list) \<Rightarrow> bool \<Rightarrow>
   ('a row_scheme) list \<times> error option \<Rightarrow> ('a row_scheme) sweep" where
  "flush sort_values debug st =
     (case st of (row_buf, pending) \<Rightarrow>
        if row_buf = [] then \<lparr>csv = Empty, raised = Some KeyError, debug_log_saved = False\<rparr>
        else \<lparr>csv = Table (sort_values row_buf), raised = pending, debug_log_saved = debug\<rparr>)"

text \<open>
  What is known of \<open>sort_values(by="layer")\<close>: it returns the rows it is given, in
  ascending order of their layer.
\<close>

definition sorts_by_layer :: "(('a row_scheme) list \<Rightarrow> ('a row_scheme) list) \<Rightarrow> bool" where
  "sorts_by_layer sort_values \<longleftrightarrow>
     (\<forall>rs. mset (sort_values rs) = mset rs \<and> sorted (map layer (sort_values rs)))"

text \<open>
  \<open>mp.Pool(num_devices)\<close> raises ValueError for fewer than one process, before the
  file is opened.
\<close>

definition apply_to_layers ::
  "(('a row_scheme) list \<Rightarrow> ('a row_scheme) list) \<Rightarrow> bool \<Rightarrow> int \<Rightarrow> 'w list \<Rightarrow>
   ('w \<Rightarrow> error + 'a row_scheme) \<Rightarrow> 'w list \<Rightarrow> ('a row_scheme) sweep" where
  "apply_to_layers sort_values debug num_devices completion func layers =
     (if num_devices < 1 then \<lparr>csv = Absent, raised = Some ValueError, debug_log_saved = False\<rparr>
      else flush sort_values debug (collect (mapper num_devices completion func layers) []))"

text \<open>The rows that arrived before the first failure, in arrival order.\<close>

fun arrived_before_failure :: "(error + 'r) list \<Rightarrow> 'r list" where
  "arrived_before_failure [] = []"
| "arrived_before_failure (Inr r # rest) = r # arrived_before_failure rest"
| "arrived_before_failure (Inl e # rest) = []"

fun first_failure :: "(error + 'r) list \<Rightarrow> error option" where
  "first_failure [] = None"
| "first_failure (Inr r # rest) = first_failure rest"
| "first_failure (Inl e # rest) = Some e"

text \<open>The units of work that completed before the first one that raised.\<close>

definition completed_before_failure :: "('w \<Rightarrow> error + 'r) \<Rightarrow> 'w list \<Rightarrow> 'w list" where
  "completed_before_failure func order = takeWhile (\<lambda>w. \<not> isl (func w)) order"

text \<open>
  A worker for the scenarios below: it raises on the layer \<open>bad\<close> and returns a row
  carrying its layer otherwise.
\<close>

definition failing_worker :: "int \<Rightarrow> int \<Rightarrow> error + row" where
  "failing_worker bad l = (if l = bad then Inl WorkerError else Inr \<lparr>layer = l\<rparr>)"

section \<open>Tensors\<close>

text \<open>
  A torch tensor is its shape and its entries in row-major order.  A floating-point
  entry is the real number it stands for; infinities and NaN are outside the model.
  Integer tensors (labels, predicted classes) have \<open>int\<close> entries.
\<close>

datatype 'a tensor = Tensor (shape: "nat list") (data: "'a list")

definition tensor_map :: "('a \<Rightarrow> 'b) \<Rightarrow> 'a tensor \<Rightarrow> 'b tensor" where
  "tensor_map f t = Tensor (shape t) (map f (data t))"

text \<open>\<open>a - b\<close> for two tensors of the same shape.\<close>

definition tensor_sub :: "real tensor \<Rightarrow> real tensor \<Rightarrow> real tensor" where
  "tensor_sub a b = Tensor (shape a) (map2 (-) (data a) (data b))"

text \<open>
  \<open>t[..., i]\<close>: the entry \<open>i\<close> of every row along the last axis.  A 0-dim tensor
  or an index beyond the last axis raises IndexError.
\<close>

definition select_last :: "nat \<Rightarrow> 'a tensor \<Rightarrow> error + 'a tensor" where
  "select_last i t =
     (if shape t = [] then Inl IndexError
      else if last (shape t) \<le> i then Inl IndexError
      else Inr (Tensor (butlast (shape t))
                  (map (\<lambda>j. data t ! (j * last (shape t) + i))
                       [0..<prod_list (butlast (shape t))])))"

text \<open>Index of the first maximal entry of a row, as \<open>torch.argmax\<close> returns it.\<close>

fun argmax_list :: "real list \<Rightarrow> nat" where
  "argmax_list [] = 0"
| "argmax_list [x] = 0"
| "argmax_list (x # y # ys) =
     (let j = argmax_list (y # ys) in if (y # ys) ! j \<le> x then 0 else Suc j)"

text \<open>
  \<open>t.argmax(dim=-1)\<close>.  A 0-dim tensor gives index 0; a last axis of size 0 raises
  IndexError.
\<close>

definition argmax_last :: "real tensor \<Rightarrow> error + int tensor" where
  "argmax_last t =
     (if shape t = [] then Inr (Tensor [] [0])
      else if last (shape t) = 0 then Inl IndexError
      else Inr (Tensor (butlast (shape t))
                  (map (\<lambda>j. int (argmax_list (take (last (shape t)) (drop (j * last (shape t)) (data t)))))
                       [0..<prod_list (butlast (shape t))])))"

text \<open>
  Floating-point arithmetic.  The result of an addition or a division of two
  floating-point numbers is the exact result rounded to the format of the tensor;
  \<open>rnd\<close> is that rounding, a parameter of every function that calls
  \<open>torch.mean\<close>.  Exact arithmetic is \<open>rnd = id\<close>.  For the default dtype
  \<open>torch.float32\<close> it is \<open>float32\<close>: round to the nearest number with a
  significand of 24 bits, a tie going to the even significand; below \<open>2^-126\<close> the
  spacing stays \<open>2^-149\<close>.  From \<open>2^128 - 2^103\<close> on the float32 result is an
  infinity, which a real number cannot stand for: there the value of \<open>float32\<close> is
  left unspecified.  The other floating-point operations of the metrics (the
  difference of two logits, the sigmoid, the quantile) are kept exact.
\<close>

definition round_half_even :: "real \<Rightarrow> int" where
  "round_half_even y =
     (let f = \<lfloor>y\<rfloor>
      in if y - of_int f < 1 / 2 then f
         else if 1 / 2 < y - of_int f then f + 1
         else if even f then f else f + 1)"

definition float32 :: "real \<Rightarrow> real" where
  "float32 x =
     (if x = 0 then 0
      else if 2 ^ 128 - 2 ^ 103 \<le> \<bar>x\<bar> then undefined
      else let e = max \<lfloor>log 2 \<bar>x\<bar>\<rfloor> (- 126)
           in of_int (round_half_even (x / 2 powr (of_int e - 23))) * 2 powr (of_int e - 23))"

text \<open>
  The mean of a sequence of floating-point numbers as \<open>torch.mean\<close> computes it:
  the entries are added one by one to an accumulator that starts at 0, and the sum is
  divided by the number of entries; every operation rounds.
\<close>

definition float_mean :: "(real \<Rightarrow> real) \<Rightarrow> real list \<Rightarrow> real" where
  "float_mean rnd xs = rnd (foldl (\<lambda>acc x. rnd (acc + x)) 0 xs / real (length xs))"

text \<open>
  The mean over axis \<open>d\<close>: the computation (\<open>mean_axis\<close>) and the torch call with
  its failures (\<open>mean_dim\<close>).  An axis of size 0 with a non-empty result gives NaN
  entries in torch.
\<close>

definition mean_axis :: "(real \<Rightarrow> real) \<Rightarrow> nat \<Rightarrow> real tensor \<Rightarrow> real tensor" where
  "mean_axis rnd d t =
     (let m = shape t ! d;
          inner = prod_list (drop (Suc d) (shape t));
          outer = prod_list (take d (shape t))
      in Tensor (take d (shape t) @ drop (Suc d) (shape t))
           (map (\<lambda>q. float_mean rnd
                        (map (\<lambda>j. data t ! (((q div inner) * m + j) * inner + q mod inner)) [0..<m]))
                [0..<outer * inner]))"

definition mean_dim :: "(real \<Rightarrow> real) \<Rightarrow> nat \<Rightarrow> real tensor \<Rightarrow> error + real tensor" where
  "mean_dim rnd d t =
     (if length (shape t) \<le> d then Inl IndexError
      else if shape t ! d = 0 \<and> 0 < prod_list (take d (shape t)) * prod_list (drop (Suc d) (shape t))
        then Inl NotANumber
      else Inr (mean_axis rnd d t))"

text \<open>
  \<open>torch.stack\<close>: an empty list or tensors of different shapes raise RuntimeError.
\<close>

definition stack_tensors :: "'a tensor list \<Rightarrow> 'a tensor" where
  "stack_tensors ts = Tensor (length ts # shape (hd ts)) (concat (map data ts))"

definition stack :: "'a tensor list \<Rightarrow> error + 'a tensor" where
  "stack ts =
     (if ts = [] then Inl RuntimeError
      else if \<exists>t \<in> set ts. shape t \<noteq> shape (hd ts) then Inl RuntimeError
      else Inr (stack_tensors ts))"

text \<open>\<open>t.flatten(1)\<close> merges all axes but the first; it needs at least two axes.\<close>

definition flatten_from_1 :: "'a tensor \<Rightarrow> error + 'a tensor" where
  "flatten_from_1 t =
     (if length (shape t) < 2 then Inl IndexError
      else Inr (Tensor [hd (shape t), prod_list (tl (shape t))] (data t)))"

text \<open>\<open>t.flatten()\<close>\<close>

definition flatten_all :: "'a tensor \<Rightarrow> 'a tensor" where
  "flatten_all t = Tensor [length (data t)] (data t)"

text \<open>\<open>einops.repeat(y_true, "n -> n v", v=v)\<close>\<close>

definition repeat_variants :: "nat \<Rightarrow> 'a tensor \<Rightarrow> 'a tensor" where
  "repeat_variants v t = Tensor (shape t @ [v]) (concat (map (replicate v) (data t)))"

text \<open>\<open>t.gt(thresh).to(torch.int)\<close>\<close>

definition tensor_gt :: "real tensor \<Rightarrow> real \<Rightarrow> int tensor" where
  "tensor_gt t thresh = Tensor (shape t) (map (\<lambda>p. if thresh < p then 1 else 0) (data t))"

text \<open>
  \<open>y_true.float().mean()\<close> over all entries; NaN (\<open>None\<close>) for an empty tensor.
\<close>

definition mean_all :: "int tensor \<Rightarrow> real option" where
  "mean_all t =
     (if data t = [] then None
      else Some (sum_list (map real_of_int (data t)) / real (length (data t))))"

text \<open>
  \<open>torch.quantile\<close> of all entries with linear interpolation: with the entries
  sorted, the value at the rank \<open>q * (n - 1)\<close>, interpolated between its two
  neighbours.  An empty input or a \<open>q\<close> outside \<open>[0, 1]\<close> (NaN included) raises
  RuntimeError.
\<close>

definition quantile_value :: "real list \<Rightarrow> real \<Rightarrow> real" where
  "quantile_value xs q =
     (let s = sort xs;
          rank = q * real (length xs - 1);
          below = nat \<lfloor>rank\<rfloor>;
          above = nat \<lceil>rank\<rceil>
      in s ! below + (rank - real below) * (s ! above - s ! below))"

definition quantile :: "real tensor \<Rightarrow> real option \<Rightarrow> error + real" where
  "quantile t q =
     (if data t = [] then Inl RuntimeError
      else case q of
             None \<Rightarrow> Inl RuntimeError
           | Some q' \<Rightarrow> if 0 \<le> q' \<and> q' \<le> 1 then Inr (quantile_value (data t) q')
                        else Inl RuntimeError)"

definition sigmoid :: "real \<Rightarrow> real" where
  "sigmoid x = 1 / (1 + exp (- x))"

section \<open>The metrics engine (metrics/eval.py)\<close>

subsection \<open>to\_one\_hot\<close>

text \<open>
  \<open>labels.new_zeros(*labels.shape, n_classes).scatter_(-1, labels.unsqueeze(-1).long(), 1)\<close>:
  a label outside \<open>[0, n_classes)\<close> makes \<open>scatter_\<close> raise RuntimeError.
\<close>

definition one_hot_row :: "nat \<Rightarrow> int \<Rightarrow> int list" where
  "one_hot_row n_classes l = map (\<lambda>c. if int c = l then 1 else 0) [0..<n_classes]"

definition to_one_hot :: "int tensor \<Rightarrow> nat \<Rightarrow> error + int tensor" where
  "to_one_hot labels n_classes =
     (if \<exists>l \<in> set (data labels). l < 0 \<or> int n_classes \<le> l then Inl RuntimeError
      else Inr (Tensor (shape labels @ [n_classes])
                  (concat (map (one_hot_row n_classes) (data labels)))))"

subsection \<open>The external estimators and their results\<close>

text \<open>
  \<open>AccuracyResult\<close>, \<open>RocAucResult\<close> and \<open>CalibrationEstimate\<close> are dataclasses
  declared in modules outside the sources at hand, as are the estimators
  \<open>accuracy_ci\<close>, \<open>roc_auc_ci\<close> and \<open>CalibrationError\<close>.  An instance of the first
  two is modelled by what \<open>asdict\<close> returns for it, its fields with their values in
  declaration order; of the third only the attribute \<open>ece\<close> is read.  The estimators
  are parameters of the model and may raise.
\<close>

type_synonym dataclass = "(string \<times> real) list"

record CalibrationEstimate =
  ece :: real

record estimators =
  accuracy_ci :: "int tensor \<Rightarrow> int tensor \<Rightarrow> error + dataclass"
  roc_auc_ci :: "int tensor \<Rightarrow> real tensor \<Rightarrow> error + dataclass"
  calibration_error :: "int tensor \<Rightarrow> real tensor \<Rightarrow> error + CalibrationEstimate"

subsection \<open>EvalResult\<close>

record EvalResult =
  accuracy :: dataclass
  cal_accuracy :: "dataclass option"
  calibration :: "CalibrationEstimate option"
  roc_auc :: dataclass

text \<open>
  A Python dict keeps its keys in insertion order; storing under a key that is
  present replaces the value and keeps the key's position.
\<close>

type_synonym 'v pydict = "(string \<times> 'v) list"

fun dict_set :: "'v pydict \<Rightarrow> string \<Rightarrow> 'v \<Rightarrow> 'v pydict" where
  "dict_set [] k v = [(k, v)]"
| "dict_set ((k', v') # d) k v = (if k' = k then (k, v) # d else (k', v') # dict_set d k v)"

text \<open>A dict comprehension or a merge \<open>{**a, **b}\<close>: the items stored one by one.\<close>

definition dict_of_items :: "(string \<times> 'v) list \<Rightarrow> 'v pydict" where
  "dict_of_items items = fold (\<lambda>(k, v) d. dict_set d k v) items []"

definition prefixed :: "string \<Rightarrow> string \<Rightarrow> dataclass \<Rightarrow> real pydict" where
  "prefixed prefix metric items =
     dict_of_items (map (\<lambda>(k, v). (prefix @ metric @ k, v)) items)"

definition to_dict :: "EvalResult \<Rightarrow> string \<Rightarrow> real pydict" where
  "to_dict r prefix =
     (let acc_dict = prefixed prefix ''acc_'' (accuracy r);
          cal_acc_dict = (case cal_accuracy r of
                            Some c \<Rightarrow> prefixed prefix ''cal_acc_'' c
                          | None \<Rightarrow> []);
          cal_dict = (case calibration r of
                        Some c \<Rightarrow> dict_of_items [(prefix @ ''ece'', ece c)]
                      | None \<Rightarrow> []);
          auroc_dict = prefixed prefix ''auroc_'' (roc_auc r)
      in dict_of_items (auroc_dict @ cal_acc_dict @ acc_dict @ cal_dict))"

subsection \<open>calc\_auroc\<close>

definition calc_auroc :: "estimators \<Rightarrow> real tensor \<Rightarrow> int tensor \<Rightarrow> string \<Rightarrow> nat \<Rightarrow> error + dataclass" where
  "calc_auroc E y_logits y_true ensembling num_classes =
     (if ensembling = ''none'' then
        bind_err (to_one_hot y_true num_classes) (\<lambda>one_hot.
        bind_err (flatten_from_1 one_hot) (\<lambda>labels.
        bind_err (flatten_from_1 y_logits) (\<lambda>scores.
        roc_auc_ci E labels scores)))
      else if ensembling = ''partial'' \<or> ensembling = ''full'' then
        (if num_classes = 2 then
           bind_err (select_last 1 y_logits) (\<lambda>l1.
           bind_err (select_last 0 y_logits) (\<lambda>l0.
           roc_auc_ci E y_true (tensor_sub l1 l0)))
         else
           bind_err (to_one_hot y_true num_classes) (\<lambda>one_hot.
           roc_auc_ci E one_hot y_logits))
      else Inl ValueError)"

subsection \<open>calc\_calibrated\_accuracies, calc\_calibrated\_errors, calc\_accuracies\<close>

definition calc_calibrated_accuracies :: "estimators \<Rightarrow> int tensor \<Rightarrow> real tensor \<Rightarrow> error + dataclass" where
  "calc_calibrated_accuracies E y_true pos_probs =
     bind_err (quantile pos_probs (mean_all y_true)) (\<lambda>cal_thresh.
     accuracy_ci E y_true (tensor_gt pos_probs cal_thresh))"

definition calc_calibrated_errors :: "estimators \<Rightarrow> int tensor \<Rightarrow> real tensor \<Rightarrow> error + CalibrationEstimate" where
  "calc_calibrated_errors E y_true pos_probs =
     calibration_error E (flatten_all y_true) (flatten_all pos_probs)"

definition calc_accuracies :: "estimators \<Rightarrow> real tensor \<Rightarrow> int tensor \<Rightarrow> error + dataclass" where
  "calc_accuracies E y_logits y_true =
     bind_err (argmax_last y_logits) (\<lambda>y_pred. accuracy_ci E y_true y_pred)"

subsection \<open>calc\_eval\_results\<close>

definition calc_eval_results ::
  "estimators \<Rightarrow> int tensor \<Rightarrow> real tensor \<Rightarrow> string \<Rightarrow> nat \<Rightarrow> error + EvalResult" where
  "calc_eval_results E y_true y_logits ensembling num_classes =
     bind_err (calc_accuracies E y_logits y_true) (\<lambda>acc.
     bind_err (select_last 1 y_logits) (\<lambda>l1.
     bind_err (select_last 0 y_logits) (\<lambda>l0.
     let pos_probs = tensor_map sigmoid (tensor_sub l1 l0) in
     bind_err (if num_classes = 2
               then bind_err (calc_calibrated_accuracies E y_true pos_probs) (\<lambda>c. Inr (Some c))
               else Inr None) (\<lambda>cal_acc.
     bind_err (if num_classes = 2
               then bind_err (calc_calibrated_errors E y_true pos_probs) (\<lambda>c. Inr (Some c))
               else Inr None) (\<lambda>cal_err.
     bind_err (calc_auroc E y_logits y_true ensembling num_classes) (\<lambda>auroc.
     Inr \<lparr>accuracy = acc, cal_accuracy = cal_acc, calibration = cal_err, roc_auc = auroc\<rparr>))))))"

subsection \<open>evaluate\_preds\<close>

text \<open>
  Unpacking \<open>y_logits.shape\<close> into three names raises ValueError unless the tensor
  has three axes; the \<open>assert\<close> raises AssertionError.
\<close>

definition evaluate_preds ::
  "(real \<Rightarrow> real) \<Rightarrow> estimators \<Rightarrow> int tensor \<Rightarrow> real tensor \<Rightarrow> string \<Rightarrow> error + EvalResult" where
  "evaluate_preds rnd E y_true y_logits ensembling =
     (case shape y_logits of
        [n, num_variants, num_classes] \<Rightarrow>
          if shape y_true \<noteq> [n] then Inl AssertionError
          else if ensembling = ''full'' then
            bind_err (mean_dim rnd 1 y_logits) (\<lambda>y_logits'.
            calc_eval_results E y_true y_logits' ensembling num_classes)
          else
            calc_eval_results E (repeat_variants num_variants y_true) y_logits ensembling num_classes
      | _ \<Rightarrow> Inl ValueError)"

subsection \<open>layer\_ensembling\<close>

text \<open>
  The output of one layer is a sequence whose first element holds the validation
  ground truth and the validation credences.
\<close>

record LayerOutput =
  val_gt :: "int tensor"
  val_credences :: "real tensor"

text \<open>The loop that fills \<open>y_logits_means\<close> and \<open>y_trues\<close>.\<close>

fun layer_loop ::
  "(real \<Rightarrow> real) \<Rightarrow> LayerOutput list list \<Rightarrow> real tensor list \<Rightarrow> int tensor list \<Rightarrow>
   error + (real tensor list \<times> int tensor list)" where
  "layer_loop rnd [] y_logits_means y_trues = Inr (y_logits_means, y_trues)"
| "layer_loop rnd (layer_output # rest) y_logits_means y_trues =
     (case layer_output of
        [] \<Rightarrow> Inl IndexError
      | out # _ \<Rightarrow>
          bind_err (mean_dim rnd 1 (val_credences out)) (\<lambda>m.
          layer_loop rnd rest (y_logits_means @ [m]) (y_trues @ [val_gt out])))"

definition layer_ensembling ::
  "(real \<Rightarrow> real) \<Rightarrow> estimators \<Rightarrow> LayerOutput list list \<Rightarrow> error + EvalResult" where
  "layer_ensembling rnd E layer_outputs =
     bind_err (layer_loop rnd layer_outputs [] []) (\<lambda>(y_logits_means, y_trues).
     if layer_outputs = [] then Inl IndexError
     else if length (shape (val_credences (hd (hd layer_outputs)))) \<le> 2 then Inl IndexError
     else
       let num_classes = shape (val_credences (hd (hd layer_outputs))) ! 2;
           middle_index = length y_trues div 2;
           y_trues' = drop middle_index y_trues;
           y_logits = drop middle_index y_logits_means
       in bind_err (stack y_logits) (\<lambda>y_logits_layers.
          bind_err (mean_dim rnd 0 y_logits_layers) (\<lambda>y_layer_logits_means.
          if length y_trues' \<le> 2 then Inl IndexError
          else calc_eval_results E (y_trues' ! 2) y_layer_logits_means ''full'' num_classes)))"

subsection \<open>Descriptions used in the properties\<close>

text \<open>The keys of one metric in the flat mapping: prefix, metric name, field name.\<close>

definition metric_keys :: "string \<Rightarrow> string \<Rightarrow> dataclass \<Rightarrow> string list" where
  "metric_keys prefix metric items = map (\<lambda>k. prefix @ metric @ k) (map fst items)"

text \<open>Merging all axes but the last, the flattening the specification describes.\<close>

definition flatten_to_last :: "'a tensor \<Rightarrow> 'a tensor" where
  "flatten_to_last t = Tensor [prod_list (butlast (shape t)), last (shape t)] (data t)"

text \<open>
  Estimators for the concrete scenarios: the accuracy is the share of agreeing
  entries, the AUROC estimator reports the shape of the labels it is given.
\<close>

definition shape_probe :: estimators where
  "shape_probe =
     \<lparr>accuracy_ci = (\<lambda>y p. Inr [(''estimate'',
          real (length (filter (\<lambda>(a, b). a = b) (zip (data y) (data p)))) / real (length (data y)))]),
      roc_auc_ci = (\<lambda>y s. case shape y of
                       [rows, columns] \<Rightarrow> Inr [(''rows'', real rows), (''columns'', real columns)]
                     | _ \<Rightarrow> Inr [(''rows'', real (length (data y))), (''columns'', 1)]),
      calibration_error = (\<lambda>y p. Inr \<lparr>ece = 0\<rparr>)\<rparr>"

text \<open>
  \<open>layer_ensembling\<close> as the specification describes it: the later half of the
  layers, their variant-averaged credences stacked and averaged over the depth axis,
  scored in mode \<open>full\<close> against the ground truth of the third layer of that half.
\<close>

definition layer_ensembling_spec ::
  "(real \<Rightarrow> real) \<Rightarrow> estimators \<Rightarrow> LayerOutput list list \<Rightarrow> error + EvalResult" where
  "layer_ensembling_spec rnd E layer_outputs =
     (let later_half = drop (length layer_outputs div 2) layer_outputs;
          stacked = stack_tensors (map (\<lambda>lo. mean_axis rnd 1 (val_credences (hd lo))) later_half);
          averaged = mean_axis rnd 0 stacked;
          ground_truth = val_gt (hd (later_half ! 2));
          num_classes = shape (val_credences (hd (hd layer_outputs))) ! 2
      in calc_eval_results E ground_truth averaged ''full'' num_classes)"

text \<open>
  A layer output for the scenarios: one example with the given label, one variant and
  two classes with equal credences.
\<close>

definition constant_layer :: "int \<Rightarrow> LayerOutput list" where
  "constant_layer label =
     [\<lparr>val_gt = Tensor [1] [label], val_credences = Tensor [1, 1, 2] [0, 0]\<rparr>]"

text \<open>
  The perfectly separated logits of the scenarios, for the labels \<open>[0, 1, 0, 1]\<close>:
  with one variant per example, and with three identical variants.
\<close>

definition separated_single :: "real tensor" where
  "separated_single = Tensor [4, 1, 2] [2, -2, -2, 2, 2, -2, -2, 2]"

definition separated_repeated :: "real tensor" where
  "separated_repeated =
     Tensor [4, 3, 2] [2, -2, 2, -2, 2, -2,  -2, 2, -2, 2, -2, 2,
                       2, -2, 2, -2, 2, -2,  -2, 2, -2, 2, -2, 2]"

text \<open>
  Logits that differ in the last bit of a float32 significand, for the labels
  \<open>[0, 1]\<close>: the second example has the logits \<open>15210813 / 2^23\<close> and
  \<open>15210814 / 2^23\<close>.  With one variant per example, and with three identical
  variants.
\<close>

definition near_tie_single :: "real tensor" where
  "near_tie_single = Tensor [2, 1, 2] [2, -2, 15210813 / 8388608, 7605407 / 4194304]"

definition near_tie_repeated :: "real tensor" where
  "near_tie_repeated =
     Tensor [2, 3, 2] [2, -2, 2, -2, 2, -2,
                       15210813 / 8388608, 7605407 / 4194304,
                       15210813 / 8388608, 7605407 / 4194304,
                       15210813 / 8388608, 7605407 / 4194304]"

text \<open>
  Point estimates for these scenarios.  The AUROC of binary labels and scores is the
  share of the pairs of a positive and a negative example that the scores rank in this
  order, a tie counting one half; the accuracy is the share of agreeing entries, as in
  \<open>shape_probe\<close>.
\<close>

definition auroc :: "int list \<Rightarrow> real list \<Rightarrow> real" where
  "auroc labels scores =
     (let pos = map snd (filter (\<lambda>(l, s). l = 1) (zip labels scores));
          neg = map snd (filter (\<lambda>(l, s). l \<noteq> 1) (zip labels scores))
      in sum_list (concat (map (\<lambda>p. map (\<lambda>q. if q < p then 1 else if q = p then 1 / 2 else 0) neg) pos))
         / real (length pos * length neg))"

definition point_estimates :: estimators where
  "point_estimates =
     shape_probe\<lparr>roc_auc_ci := (\<lambda>y s. Inr [(''estimate'', auroc (data y) (data s))])\<rparr>"

section \<open>Properties of the orchestrator\<close>

subsection \<open>The flush of apply\_to\_layers\<close>

lemma collect_eq:
  "collect results buf = (buf @ arrived_before_failure results, first_failure results)"
proof (induction results arbitrary: buf)
  case Nil
  then show ?case by simp
next
  case (Cons x results)
  then show ?case by (cases x) simp_all
qed

lemma arrived_layers:
  assumes "\<And>w r. func w = Inr r \<Longrightarrow> layer r = layer_of w"
  shows "map layer (arrived_before_failure (map func order)) =
         map layer_of (completed_before_failure func order)"
proof (induction order)
  case Nil
  then show ?case by (simp add: completed_before_failure_def)
next
  case (Cons w order)
  show ?case
  proof (cases "func w")
    case (Inl e)
    then show ?thesis by (simp add: completed_before_failure_def)
  next
    case (Inr r)
    with Cons assms [OF Inr] show ?thesis by (simp add: completed_before_failure_def)
  qed
qed

lemma first_failure_some:
  "first_failure (map func order) \<noteq> None \<longleftrightarrow> (\<exists>w \<in> set order. isl (func w))"
proof (induction order)
  case Nil
  then show ?case by simp
next
  case (Cons w order)
  then show ?case by (cases "func w") simp_all
qed

lemma sorts_by_layer_sort_key: "sorts_by_layer (sort_key layer)"
  by (simp add: sorts_by_layer_def sorted_sort_key)

text \<open>
  The outcome of a sweep on at least one device.  When at least one row arrived
  before the first failure, the file holds the table of the rows that arrived, as
  \<open>sort_values\<close> orders them, and what the loop raised, if anything, propagates.
  When none arrived, the file is left empty and KeyError is raised.
\<close>

lemma apply_to_layers_outcome:
  assumes "1 \<le> num_devices"
  shows "apply_to_layers sort_values debug num_devices completion func layers =
     (if arrived_before_failure (mapper num_devices completion func layers) = []
      then \<lparr>csv = Empty, raised = Some KeyError, debug_log_saved = False\<rparr>
      else \<lparr>csv = Table (sort_values (arrived_before_failure (mapper num_devices completion func layers))),
            raised = first_failure (mapper num_devices completion func layers),
            debug_log_saved = debug\<rparr>)"
  using assms by (simp add: apply_to_layers_def collect_eq flush_def)

text \<open>
  When every row carries the layer of its unit of work, the layers of the sorted rows
  are the layers that completed before the first failure, in ascending order.
\<close>

lemma sorted_table_layers:
  assumes "sorts_by_layer sort_values"
    and "\<And>w r. func w = Inr r \<Longrightarrow> layer r = layer_of w"
  shows "map layer (sort_values (arrived_before_failure (map func order))) =
         sort (map layer_of (completed_before_failure func order))"
proof -
  let ?rs = "arrived_before_failure (map func order)"
  from assms(1) have m: "mset (sort_values ?rs) = mset ?rs"
    and srt: "sorted (map layer (sort_values ?rs))"
    by (simp_all add: sorts_by_layer_def)
  from m have "mset (map layer (sort_values ?rs)) = mset (map layer ?rs)" by simp
  from this srt have "sort (map layer ?rs) = map layer (sort_values ?rs)"
    by (rule properties_for_sort)
  moreover have "map layer ?rs = map layer_of (completed_before_failure func order)"
    using assms(2) by (rule arrived_layers)
  ultimately show ?thesis by simp
qed

text \<open>
  A sweep over the layers \<open>[0, 1, 2]\<close> in which the worker for layer 1 raises.  On
  one device the layers run in order and layer 2 never runs; under a pool in which
  layer 2 completes before layer 1, its row is in the table.
\<close>

lemma apply_to_layers_sequential_example:
  "apply_to_layers sort_values False 1 [] (failing_worker 1) [0, 1, 2] =
     \<lparr>csv = Table (sort_values [\<lparr>layer = 0\<rparr>]), raised = Some WorkerError, debug_log_saved = False\<rparr>"
  by (simp add: apply_to_layers_def mapper_def failing_worker_def flush_def)

lemma apply_to_layers_pool_example:
  "apply_to_layers (sort_key layer) False 2 [2, 0, 1] (failing_worker 1) [0, 1, 2] =
     \<lparr>csv = Table [\<lparr>layer = 0\<rparr>, \<lparr>layer = 2\<rparr>], raised = Some WorkerError, debug_log_saved = False\<rparr>"
  by (simp add: apply_to_layers_def mapper_def failing_worker_def flush_def)

text \<open>
  Claim C1.  The flush does not write the rows collected so far when the collection
  loop is aborted before the first row has arrived: the buffer is empty,
  \<open>sort_values(by="layer")\<close> raises KeyError on a frame without columns,
  \<open>to_csv\<close> is not reached, so the file is left empty, and the KeyError replaces the
  exception of the worker.  This is the outcome of a sweep over the layers
  \<open>[0, 1, 2]\<close> on one device when the worker for layer 0 raises, and of the sweep in
  which the worker for layer 1 raises, under a pool in which layer 1 completes first.
\<close>

theorem apply_to_layers_failure_before_first_row:
  "apply_to_layers sort_values debug 1 completion (failing_worker 0) [0, 1, 2] =
     \<lparr>csv = Empty, raised = Some KeyError, debug_log_saved = False\<rparr>
   \<and> apply_to_layers sort_values debug 2 [1, 0, 2] (failing_worker 1) [0, 1, 2] =
     \<lparr>csv = Empty, raised = Some KeyError, debug_log_saved = False\<rparr>"
  by (simp add: apply_to_layers_def mapper_def failing_worker_def flush_def)

subsection \<open>Run.concatenate\<close>

text \<open>
  Claim C8.  \<open>apply_to_layers\<close> resolves \<open>layers\<close> as a list of ints
  (\<open>layers: list[int] = get_layers(self.dataset)\<close>).  With an offset greater than 0
  and smaller than the number of layers, the first iteration of the loop of
  \<open>concatenate\<close> subscripts an int and raises TypeError: no unit of work is extended
  by an earlier layer, and the sweep does not start.
\<close>

theorem concatenate_int_layers_raise:
  assumes "0 < offset" and "offset < int (length ls)"
  shows "resolve_layers offset (map Idx ls) = Inl TypeError"
proof -
  from assms have idxs: "[offset .. int (length (map Idx ls)) - 1] =
      offset # [offset + 1 .. int (length (map Idx ls)) - 1]"
    by (simp add: upto_rec1)
  from assms have p: "py_index (map Idx ls) offset = Inr (nat offset)"
    by (simp add: py_index_def Let_def)
  from assms have "map Idx ls ! nat offset = Idx (ls ! nat offset)" by simp
  with p have "concatenate_step offset (map Idx ls) offset = Inl TypeError"
    by (simp add: concatenate_step_def)
  then have "concatenate offset (map Idx ls) = Inl TypeError"
    unfolding concatenate_def idxs by simp
  with assms(1) show ?thesis by (simp add: resolve_layers_def)
qed

theorem concatenate_int_layers_raise_witness:
  "(0::int) < 1 \<and> 1 < int (length [0::int, 1, 2])
   \<and> resolve_layers 1 [Idx 0, Idx 1, Idx 2] = Inl TypeError"
proof -
  have h: "(0::int) < 1" by simp
  have l: "1 < int (length [0::int, 1, 2])" by simp
  from concatenate_int_layers_raise [OF h l] h l show ?thesis by simp
qed

text \<open>
  With an offset of at least the number of layers the loop does not run and the list
  of ints is returned as it is.
\<close>

lemma concatenate_large_offset:
  assumes "0 < offset" and "int (length layers) \<le> offset"
  shows "resolve_layers offset layers = Inr layers"
  using assms by (simp add: resolve_layers_def concatenate_def)

text \<open>
  What the loop computes on entries it can subscript, which \<open>run.py\<close> does not
  produce: on non-empty lists of indices it appends to every entry at a position
  \<open>p \<ge> offset\<close> its first index minus the offset.
\<close>

lemma concatenate_step_ok:
  assumes "0 \<le> i" "i < int (length layers)" "is_index_list (layers ! nat i)"
  shows "concatenate_step off layers i = Inr (layers[nat i := with_earlier off (layers ! nat i)])"
proof -
  from assms(3) obtain x xs where w: "layers ! nat i = Idxs (x # xs)"
    by (cases "layers ! nat i" rule: is_index_list.cases) auto
  from assms(1,2) have "py_index layers i = Inr (nat i)"
    by (simp add: py_index_def Let_def)
  with w show ?thesis by (simp add: concatenate_step_def)
qed

lemma is_index_list_with_earlier: "is_index_list w \<Longrightarrow> is_index_list (with_earlier off w)"
  by (cases w rule: is_index_list.cases) auto

lemma concatenate_loop_ok:
  assumes "\<forall>i \<in> set idxs. 0 \<le> i \<and> i < int (length layers)"
    and "distinct idxs"
    and "\<forall>w \<in> set layers. is_index_list w"
  shows "concatenate_loop off idxs layers =
         Inr (map (\<lambda>p. if int p \<in> set idxs then with_earlier off (layers ! p) else layers ! p)
                  [0..<length layers])"
  using assms
proof (induction idxs arbitrary: layers)
  case Nil
  then show ?case by (simp add: map_nth)
next
  case (Cons i idxs)
  let ?layers' = "layers[nat i := with_earlier off (layers ! nat i)]"
  from Cons.prems have i: "0 \<le> i" "i < int (length layers)" by auto
  then have ni: "nat i < length layers" by simp
  with Cons.prems(3) have wi: "is_index_list (layers ! nat i)" by simp
  have step: "concatenate_step off layers i = Inr ?layers'"
    using i wi by (rule concatenate_step_ok)
  have p1: "\<forall>j \<in> set idxs. 0 \<le> j \<and> j < int (length ?layers')"
    using Cons.prems(1) by simp
  have p2: "distinct idxs" using Cons.prems(2) by simp
  have p3: "\<forall>w \<in> set ?layers'. is_index_list w"
  proof
    fix w assume "w \<in> set ?layers'"
    then have "w \<in> insert (with_earlier off (layers ! nat i)) (set layers)"
      using set_update_subset_insert by fast
    with Cons.prems(3) wi show "is_index_list w"
      by (auto intro: is_index_list_with_earlier)
  qed
  have "concatenate_loop off idxs ?layers' =
        Inr (map (\<lambda>p. if int p \<in> set idxs then with_earlier off (?layers' ! p) else ?layers' ! p)
                 [0..<length ?layers'])"
    using p1 p2 p3 by (rule Cons.IH)
  moreover have "map (\<lambda>p. if int p \<in> set idxs then with_earlier off (?layers' ! p) else ?layers' ! p)
                 [0..<length ?layers'] =
        map (\<lambda>p. if int p \<in> set (i # idxs) then with_earlier off (layers ! p) else layers ! p)
                 [0..<length layers]"
  proof (rule nth_equalityI)
    show "length (map (\<lambda>p. if int p \<in> set idxs then with_earlier off (?layers' ! p) else ?layers' ! p)
                 [0..<length ?layers']) =
          length (map (\<lambda>p. if int p \<in> set (i # idxs) then with_earlier off (layers ! p) else layers ! p)
                 [0..<length layers])" by simp
  next
    fix p assume "p < length (map (\<lambda>p. if int p \<in> set idxs then with_earlier off (?layers' ! p) else ?layers' ! p)
                 [0..<length ?layers'])"
    then have p: "p < length layers" by simp
    show "map (\<lambda>p. if int p \<in> set idxs then with_earlier off (?layers' ! p) else ?layers' ! p)
                 [0..<length ?layers'] ! p =
          map (\<lambda>p. if int p \<in> set (i # idxs) then with_earlier off (layers ! p) else layers ! p)
                 [0..<length layers] ! p"
    proof (cases "p = nat i")
      case True
      with Cons.prems(2) i have "int p \<notin> set idxs" by auto
      with True p i show ?thesis by simp
    next
      case False
      with i have "int p \<noteq> i" by auto
      with False p show ?thesis by simp
    qed
  qed
  ultimately show ?case using step by simp
qed

lemma concatenate_index_lists:
  assumes "0 < offset" and "\<forall>w \<in> set layers. is_index_list w"
  shows "resolve_layers offset layers =
           Inr (map (\<lambda>p. if offset \<le> int p then with_earlier offset (layers ! p) else layers ! p)
                    [0..<length layers])"
proof -
  let ?idxs = "[offset .. int (length layers) - 1]"
  have "concatenate_loop offset ?idxs layers =
         Inr (map (\<lambda>p. if int p \<in> set ?idxs then with_earlier offset (layers ! p) else layers ! p)
                  [0..<length layers])"
    using assms by (intro concatenate_loop_ok) auto
  moreover have "map (\<lambda>p. if int p \<in> set ?idxs then with_earlier offset (layers ! p) else layers ! p)
                  [0..<length layers] =
        map (\<lambda>p. if offset \<le> int p then with_earlier offset (layers ! p) else layers ! p)
                    [0..<length layers]"
    by (rule map_cong) auto
  ultimately show ?thesis
    using assms(1) by (simp add: resolve_layers_def concatenate_def)
qed

lemma concatenate_index_lists_example:
  "resolve_layers 1 [Idxs [5], Idxs [6], Idxs [7]] = Inr [Idxs [5], Idxs [6, 5], Idxs [7, 6]]"
  by (simp add: resolve_layers_def concatenate_def concatenate_step_def py_index_def upto.simps)

section \<open>Properties of the metrics engine\<close>

lemma dict_set_fresh: "k \<notin> fst ` set d \<Longrightarrow> dict_set d k v = d @ [(k, v)]"
  by (induction d) auto

lemma keys_dict_set: "fst ` set (dict_set d k v) = insert k (fst ` set d)"
proof (induction d)
  case Nil
  then show ?case by simp
next
  case (Cons kv d)
  obtain k' v' where kv: "kv = (k', v')" by (cases kv)
  show ?case
  proof (cases "k' = k")
    case True
    with kv show ?thesis by simp
  next
    case False
    with kv Cons.IH show ?thesis by (simp add: insert_commute)
  qed
qed

lemma fold_dict_set_distinct:
  "distinct (map fst (acc @ items)) \<Longrightarrow>
   fold (\<lambda>(k, v) d. dict_set d k v) items acc = acc @ items"
proof (induction items arbitrary: acc)
  case Nil
  then show ?case by simp
next
  case (Cons kv items)
  obtain k v where kv: "kv = (k, v)" by (cases kv)
  from Cons.prems kv have fresh: "k \<notin> fst ` set acc" by auto
  from Cons.prems kv have "distinct (map fst ((acc @ [(k, v)]) @ items))" by simp
  then have "fold (\<lambda>(k, v) d. dict_set d k v) items (acc @ [(k, v)]) = (acc @ [(k, v)]) @ items"
    by (rule Cons.IH)
  with fresh kv show ?case by (simp add: dict_set_fresh)
qed

lemma dict_of_items_distinct: "distinct (map fst items) \<Longrightarrow> dict_of_items items = items"
  unfolding dict_of_items_def using fold_dict_set_distinct [of "[]" items] by simp

lemma fold_dict_set_keys:
  "fst ` set (fold (\<lambda>(k, v) d. dict_set d k v) items acc) = fst ` set acc \<union> fst ` set items"
proof (induction items arbitrary: acc)
  case Nil
  then show ?case by simp
next
  case (Cons kv items)
  obtain k v where kv: "kv = (k, v)" by (cases kv)
  show ?case unfolding kv by (simp add: Cons.IH keys_dict_set)
qed

lemma keys_dict_of_items: "fst ` set (dict_of_items items) = fst ` set items"
  unfolding dict_of_items_def by (simp add: fold_dict_set_keys)

lemma map_fst_prefixed_items:
  "map fst (map (\<lambda>(k, v). (prefix @ metric @ k, v)) items) = map (\<lambda>k. prefix @ metric @ k) (map fst items)"
  by (induction items) auto

lemma prefixed_distinct:
  assumes "distinct (map fst items)"
  shows "prefixed prefix metric items = map (\<lambda>(k, v). (prefix @ metric @ k, v)) items"
proof -
  have "inj (\<lambda>k. prefix @ metric @ k)" by (rule injI) simp
  with assms have "distinct (map (\<lambda>k. prefix @ metric @ k) (map fst items))"
    by (simp add: distinct_map inj_on_def)
  then have "distinct (map fst (map (\<lambda>(k, v). (prefix @ metric @ k, v)) items))"
    by (simp only: map_fst_prefixed_items)
  then show ?thesis
    unfolding prefixed_def by (rule dict_of_items_distinct)
qed

lemma keys_prefixed:
  "fst ` set (prefixed prefix metric items) = (\<lambda>k. prefix @ metric @ k) ` fst ` set items"
  unfolding prefixed_def keys_dict_of_items by (force simp: image_iff)

lemma distinct_metric_keys:
  "distinct (map fst items) \<Longrightarrow> distinct (metric_keys prefix metric items)"
  unfolding metric_keys_def by (simp add: distinct_map inj_on_def)

lemma keys_prefixed_distinct:
  "distinct (map fst items) \<Longrightarrow> map fst (prefixed prefix metric items) = metric_keys prefix metric items"
  by (simp only: prefixed_distinct map_fst_prefixed_items metric_keys_def)

lemma metric_keys_disjoint:
  "(\<And>k1 k2. m1 @ k1 \<noteq> m2 @ k2) \<Longrightarrow>
   set (metric_keys prefix m1 items1) \<inter> set (metric_keys prefix m2 items2) = {}"
  unfolding metric_keys_def by auto

lemma ece_not_metric_key:
  assumes "\<And>k. m @ k \<noteq> ''ece''"
  shows "prefix @ ''ece'' \<notin> set (metric_keys prefix m items)"
proof
  assume "prefix @ ''ece'' \<in> set (metric_keys prefix m items)"
  then obtain k where "prefix @ ''ece'' = prefix @ m @ k"
    unfolding metric_keys_def by auto
  then have "m @ k = ''ece''" by simp
  with assms show False by blast
qed

lemma distinct_four:
  "distinct a \<Longrightarrow> distinct b \<Longrightarrow> distinct c \<Longrightarrow> distinct d \<Longrightarrow>
   set a \<inter> set b = {} \<Longrightarrow> set a \<inter> set c = {} \<Longrightarrow> set a \<inter> set d = {} \<Longrightarrow>
   set b \<inter> set c = {} \<Longrightarrow> set b \<inter> set d = {} \<Longrightarrow> set c \<inter> set d = {} \<Longrightarrow>
   distinct (a @ b @ c @ d)"
  by auto

text \<open>
  Claim C6.  For every \<open>EvalResult\<close> whose dataclass fields have distinct names,
  the keys of \<open>to_dict\<close> are, in this order: the AUROC fields, the calibrated-accuracy
  fields (if present), the accuracy fields, and the calibration key \<open>ece\<close> last (if
  present), each prefixed with the given prefix and the metric name.
\<close>

theorem to_dict_key_order:
  assumes "distinct (map fst (roc_auc r))"
    and "distinct (map fst (accuracy r))"
    and "\<forall>c. cal_accuracy r = Some c \<longrightarrow> distinct (map fst c)"
  shows "map fst (to_dict r prefix) =
           metric_keys prefix ''auroc_'' (roc_auc r)
           @ (case cal_accuracy r of None \<Rightarrow> [] | Some c \<Rightarrow> metric_keys prefix ''cal_acc_'' c)
           @ metric_keys prefix ''acc_'' (accuracy r)
           @ (case calibration r of None \<Rightarrow> [] | Some c \<Rightarrow> [prefix @ ''ece''])"
proof -
  let ?auroc = "prefixed prefix ''auroc_'' (roc_auc r)"
  let ?acc = "prefixed prefix ''acc_'' (accuracy r)"
  let ?cal_acc = "case cal_accuracy r of Some c \<Rightarrow> prefixed prefix ''cal_acc_'' c | None \<Rightarrow> []"
  let ?cal = "case calibration r of Some c \<Rightarrow> dict_of_items [(prefix @ ''ece'', ece c)] | None \<Rightarrow> []"
  let ?ka = "metric_keys prefix ''auroc_'' (roc_auc r)"
  let ?kc = "case cal_accuracy r of None \<Rightarrow> [] | Some c \<Rightarrow> metric_keys prefix ''cal_acc_'' c"
  let ?kb = "metric_keys prefix ''acc_'' (accuracy r)"
  let ?ke = "case calibration r of None \<Rightarrow> [] | Some c \<Rightarrow> [prefix @ ''ece'']"
  have ka: "map fst ?auroc = ?ka" using assms(1) by (rule keys_prefixed_distinct)
  have kb: "map fst ?acc = ?kb" using assms(2) by (rule keys_prefixed_distinct)
  have kc: "map fst ?cal_acc = ?kc"
    using assms(3) by (cases "cal_accuracy r") (simp_all add: keys_prefixed_distinct)
  have ke: "map fst ?cal = ?ke"
    by (cases "calibration r") (simp_all add: dict_of_items_def)
  have da: "distinct ?ka" using assms(1) by (rule distinct_metric_keys)
  have db: "distinct ?kb" using assms(2) by (rule distinct_metric_keys)
  have dc: "distinct ?kc"
    using assms(3) by (cases "cal_accuracy r") (simp_all add: distinct_metric_keys)
  have de: "distinct ?ke" by (cases "calibration r") simp_all
  have ac: "set ?ka \<inter> set ?kc = {}"
    by (cases "cal_accuracy r") (simp_all add: metric_keys_disjoint)
  have ab: "set ?ka \<inter> set ?kb = {}" by (simp add: metric_keys_disjoint)
  have cb: "set ?kc \<inter> set ?kb = {}"
    by (cases "cal_accuracy r") (simp_all add: metric_keys_disjoint)
  have ae: "set ?ka \<inter> set ?ke = {}"
    by (cases "calibration r") (simp_all add: ece_not_metric_key)
  have ce: "set ?kc \<inter> set ?ke = {}"
    by (cases "calibration r"; cases "cal_accuracy r") (simp_all add: ece_not_metric_key)
  have be: "set ?kb \<inter> set ?ke = {}"
    by (cases "calibration r") (simp_all add: ece_not_metric_key)
  have "distinct (?ka @ ?kc @ ?kb @ ?ke)"
    using da dc db de ac ab ae cb ce be by (rule distinct_four)
  then have "distinct (map fst (?auroc @ ?cal_acc @ ?acc @ ?cal))"
    by (simp only: map_append ka kb kc ke)
  then have "dict_of_items (?auroc @ ?cal_acc @ ?acc @ ?cal) = ?auroc @ ?cal_acc @ ?acc @ ?cal"
    by (rule dict_of_items_distinct)
  then have "to_dict r prefix = ?auroc @ ?cal_acc @ ?acc @ ?cal"
    by (simp add: to_dict_def Let_def)
  then show ?thesis by (simp only: map_append ka kb kc ke)
qed

lemma bind_err_Inr: "bind_err m f = Inr r \<longleftrightarrow> (\<exists>x. m = Inr x \<and> f x = Inr r)"
  by (cases m) (simp_all add: bind_err_def)

lemma bind_err_simps: "bind_err (Inl e) f = Inl e" "bind_err (Inr x) f = f x"
  by (simp_all add: bind_err_def)

lemma calc_eval_results_fields:
  assumes "calc_eval_results E y_true y_logits ensembling k = Inr r"
  shows "(cal_accuracy r \<noteq> None) = (k = 2)" and "(calibration r \<noteq> None) = (k = 2)"
proof -
  from assms obtain acc pos_probs cal_acc cal_err auroc where
    ca: "(if k = 2
          then bind_err (calc_calibrated_accuracies E y_true pos_probs) (\<lambda>c. Inr (Some c))
          else Inr None) = Inr cal_acc"
    and ce: "(if k = 2
          then bind_err (calc_calibrated_errors E y_true pos_probs) (\<lambda>c. Inr (Some c))
          else Inr None) = Inr cal_err"
    and r: "r = \<lparr>accuracy = acc, cal_accuracy = cal_acc, calibration = cal_err, roc_auc = auroc\<rparr>"
    unfolding calc_eval_results_def Let_def bind_err_Inr by auto
  from ca r show "(cal_accuracy r \<noteq> None) = (k = 2)"
    by (auto simp: bind_err_Inr split: if_splits)
  from ce r show "(calibration r \<noteq> None) = (k = 2)"
    by (auto simp: bind_err_Inr split: if_splits)
qed

lemma keys_to_dict:
  "set (map fst (to_dict r prefix)) =
     set (metric_keys prefix ''auroc_'' (roc_auc r))
     \<union> (case cal_accuracy r of None \<Rightarrow> {} | Some c \<Rightarrow> set (metric_keys prefix ''cal_acc_'' c))
     \<union> set (metric_keys prefix ''acc_'' (accuracy r))
     \<union> (case calibration r of None \<Rightarrow> {} | Some c \<Rightarrow> {prefix @ ''ece''})"
proof -
  have p: "\<And>metric items. fst ` set (prefixed prefix metric items) = set (metric_keys prefix metric items)"
    by (simp add: keys_prefixed metric_keys_def image_image)
  show ?thesis
    by (cases "cal_accuracy r"; cases "calibration r")
       (simp_all add: to_dict_def Let_def keys_dict_of_items image_Un p Un_assoc)
qed

text \<open>
  Claim C5.  In a result of \<open>calc_eval_results\<close>, \<open>cal_accuracy\<close> and
  \<open>calibration\<close> are present exactly when the number of classes is 2.  Otherwise
  both are \<open>None\<close> and \<open>to_dict\<close> has neither the key \<open>ece\<close> nor any key of
  the calibrated accuracy; with two classes it has both.
\<close>

theorem calibration_fields_iff_binary:
  assumes "calc_eval_results E y_true y_logits ensembling k = Inr r"
  shows "(cal_accuracy r \<noteq> None \<longleftrightarrow> k = 2) \<and> (calibration r \<noteq> None \<longleftrightarrow> k = 2)
       \<and> (k \<noteq> 2 \<longrightarrow>
            prefix @ ''ece'' \<notin> set (map fst (to_dict r prefix))
            \<and> (\<forall>field. prefix @ ''cal_acc_'' @ field \<notin> set (map fst (to_dict r prefix))))
       \<and> (k = 2 \<longrightarrow>
            prefix @ ''ece'' \<in> set (map fst (to_dict r prefix))
            \<and> (\<exists>c. cal_accuracy r = Some c
                 \<and> set (metric_keys prefix ''cal_acc_'' c) \<subseteq> set (map fst (to_dict r prefix))))"
proof -
  note f = calc_eval_results_fields [OF assms]
  have no_ece: "prefix @ ''ece'' \<notin> set (metric_keys prefix ''auroc_'' (roc_auc r))"
       "prefix @ ''ece'' \<notin> set (metric_keys prefix ''acc_'' (accuracy r))"
    by (simp_all add: ece_not_metric_key)
  have no_cal: "\<And>field. prefix @ ''cal_acc_'' @ field \<notin> set (metric_keys prefix ''auroc_'' (roc_auc r))"
       "\<And>field. prefix @ ''cal_acc_'' @ field \<notin> set (metric_keys prefix ''acc_'' (accuracy r))"
    by (auto simp: metric_keys_def)
  have absent: "k \<noteq> 2 \<longrightarrow>
            prefix @ ''ece'' \<notin> set (map fst (to_dict r prefix))
            \<and> (\<forall>field. prefix @ ''cal_acc_'' @ field \<notin> set (map fst (to_dict r prefix)))"
  proof
    assume "k \<noteq> 2"
    with f have "cal_accuracy r = None" "calibration r = None" by auto
    then show "prefix @ ''ece'' \<notin> set (map fst (to_dict r prefix))
            \<and> (\<forall>field. prefix @ ''cal_acc_'' @ field \<notin> set (map fst (to_dict r prefix)))"
      using no_ece no_cal unfolding keys_to_dict by simp
  qed
  have present: "k = 2 \<longrightarrow>
            prefix @ ''ece'' \<in> set (map fst (to_dict r prefix))
            \<and> (\<exists>c. cal_accuracy r = Some c
                 \<and> set (metric_keys prefix ''cal_acc_'' c) \<subseteq> set (map fst (to_dict r prefix)))"
  proof
    assume "k = 2"
    with f obtain c e where "cal_accuracy r = Some c" "calibration r = Some e" by auto
    then show "prefix @ ''ece'' \<in> set (map fst (to_dict r prefix))
            \<and> (\<exists>c. cal_accuracy r = Some c
                 \<and> set (metric_keys prefix ''cal_acc_'' c) \<subseteq> set (map fst (to_dict r prefix)))"
      unfolding keys_to_dict by auto
  qed
  from f absent present show ?thesis by blast
qed

text \<open>
  Claim C7.  In the modes \<open>partial\<close> and \<open>full\<close> with two classes, \<open>calc_auroc\<close>
  is \<open>roc_auc_ci\<close> of \<open>y_true\<close> itself (not one-hot encoded) and the score
  \<open>logit[1] - logit[0]\<close> of every row.
\<close>

theorem calc_auroc_binary_pooled:
  assumes "ensembling = ''partial'' \<or> ensembling = ''full''"
    and "shape y_logits \<noteq> []" and "last (shape y_logits) = 2"
  shows "calc_auroc E y_logits y_true ensembling 2 =
         roc_auc_ci E y_true
           (Tensor (butlast (shape y_logits))
              (map (\<lambda>j. data y_logits ! (j * 2 + 1) - data y_logits ! (j * 2))
                   [0..<prod_list (butlast (shape y_logits))]))"
proof -
  have n: "ensembling \<noteq> ''none''" using assms(1) by auto
  have s1: "select_last (Suc 0) y_logits =
        Inr (Tensor (butlast (shape y_logits))
               (map (\<lambda>j. data y_logits ! (j * 2 + 1)) [0..<prod_list (butlast (shape y_logits))]))"
    using assms(2,3) by (simp add: select_last_def)
  have s0: "select_last 0 y_logits =
        Inr (Tensor (butlast (shape y_logits))
               (map (\<lambda>j. data y_logits ! (j * 2)) [0..<prod_list (butlast (shape y_logits))]))"
    using assms(2,3) by (simp add: select_last_def)
  show ?thesis
    using n assms(1)
    by (simp add: calc_auroc_def s1 s0 bind_err_simps tensor_sub_def map2_map_map)
qed

text \<open>
  Claim C3 (as amended).  In mode \<open>none\<close>, with labels of shape \<open>(n, v)\<close> and
  logits of shape \<open>(n, v, k)\<close>, \<open>calc_auroc\<close> one-hot encodes the labels and
  merges all axes but the first: \<open>roc_auc_ci\<close> is given labels and scores of shape
  \<open>(n, v * k)\<close>, the example axis kept and the variant and class axes merged.
\<close>

theorem calc_auroc_none_flattens_from_1:
  assumes "shape y_true = [n, v]" and "shape y_logits = [n, v, k]"
    and "\<forall>l \<in> set (data y_true). 0 \<le> l \<and> l < int k"
  shows "calc_auroc E y_logits y_true ''none'' k =
         roc_auc_ci E
           (Tensor [n, v * k] (concat (map (one_hot_row k) (data y_true))))
           (Tensor [n, v * k] (data y_logits))"
proof -
  have oh: "to_one_hot y_true k =
        Inr (Tensor [n, v, k] (concat (map (one_hot_row k) (data y_true))))"
    using assms(1,3) by (auto simp: to_one_hot_def)
  show ?thesis
    using assms(2) by (simp add: calc_auroc_def oh bind_err_simps flatten_from_1_def)
qed

text \<open>
  Claim C3 as stated fails: for one example with two variants and two classes the
  estimator is given one row of four entries, while merging all axes but the last
  would give it two rows of two.
\<close>

theorem calc_auroc_none_counterexample:
  "calc_auroc shape_probe (Tensor [1, 2, 2] [2, -2, -2, 2]) (Tensor [1, 2] [0, 1]) ''none'' 2
     = Inr [(''rows'', 1), (''columns'', 4)]
   \<and> bind_err (to_one_hot (Tensor [1, 2] [0, 1]) 2) (\<lambda>one_hot.
       roc_auc_ci shape_probe (flatten_to_last one_hot)
         (flatten_to_last (Tensor [1, 2, 2] [2, -2, -2, 2])))
     = Inr [(''rows'', 2), (''columns'', 2)]"
  by (simp add: calc_auroc_def to_one_hot_def one_hot_row_def flatten_from_1_def flatten_to_last_def
        shape_probe_def bind_err_simps upt_rec)

lemma sigmoid_zero: "sigmoid 0 = 1 / 2"
  by (simp add: sigmoid_def)

lemma quantile_value_bounds:
  assumes "xs \<noteq> []" and "0 \<le> q" and "q \<le> 1"
  shows "Min (set xs) \<le> quantile_value xs q" and "quantile_value xs q \<le> Max (set xs)"
proof -
  define s where "s = sort xs"
  define m where "m = real (length xs - 1)"
  define rank where "rank = q * m"
  define below where "below = nat \<lfloor>rank\<rfloor>"
  define above where "above = nat \<lceil>rank\<rceil>"
  have m0: "0 \<le> m" by (simp add: m_def)
  have r0: "0 \<le> rank" using assms(2) m0 by (simp add: rank_def)
  have r1: "rank \<le> m"
    using assms(3) m0 mult_right_mono [of q 1 m] by (simp add: rank_def)
  have fl: "real below \<le> rank" using r0 by (simp add: below_def)
  have w1: "rank - real below \<le> 1" using r0 unfolding below_def by linarith
  have "\<lceil>rank\<rceil> \<le> int (length xs - 1)"
    using r1 by (simp add: ceiling_le_iff m_def)
  moreover have "0 < length xs" using assms(1) by simp
  ultimately have "nat \<lceil>rank\<rceil> < length xs" by linarith
  then have above: "above < length s" by (simp add: above_def s_def)
  have ba: "below \<le> above"
    unfolding below_def above_def by (intro nat_mono floor_le_ceiling)
  from ba above have below: "below < length s" by (rule le_less_trans)
  have srt: "sorted s" by (simp add: s_def)
  have mono: "s ! below \<le> s ! above"
    using srt ba above by (rule sorted_nth_mono)
  have val: "quantile_value xs q = s ! below + (rank - real below) * (s ! above - s ! below)"
    by (simp add: quantile_value_def Let_def s_def rank_def m_def below_def above_def)
  have w0: "0 \<le> rank - real below" using fl by simp
  have "0 \<le> (rank - real below) * (s ! above - s ! below)"
    using w0 mono by (intro mult_nonneg_nonneg) simp_all
  then have lo: "s ! below \<le> quantile_value xs q" unfolding val by simp
  have "(rank - real below) * (s ! above - s ! below) \<le> 1 * (s ! above - s ! below)"
    using w1 mono by (intro mult_right_mono) simp_all
  then have hi: "quantile_value xs q \<le> s ! above" unfolding val by simp
  have "s ! below \<in> set s" using below by (rule nth_mem)
  then have "s ! below \<in> set xs" by (simp add: s_def)
  then have "Min (set xs) \<le> s ! below" by simp
  with lo show "Min (set xs) \<le> quantile_value xs q" by simp
  have "s ! above \<in> set s" using above by (rule nth_mem)
  then have "s ! above \<in> set xs" by (simp add: s_def)
  then have "s ! above \<le> Max (set xs)" by simp
  with hi show "quantile_value xs q \<le> Max (set xs)" by simp
qed

lemma binary_labels_sum:
  "\<forall>l \<in> set xs. l = 0 \<or> l = (1::int) \<Longrightarrow>
   0 \<le> sum_list (map real_of_int xs) \<and> sum_list (map real_of_int xs) \<le> real (length xs)"
  by (induction xs) auto

lemma binary_labels_mean:
  assumes "xs \<noteq> []" and "\<forall>l \<in> set xs. l = 0 \<or> l = (1::int)"
  shows "0 \<le> sum_list (map real_of_int xs) / real (length xs)"
    and "sum_list (map real_of_int xs) / real (length xs) \<le> 1"
  using binary_labels_sum [OF assms(2)] assms(1) by (simp_all add: divide_le_eq)

text \<open>
  Claim C4.  For non-empty binary labels with positive rate \<open>q\<close> and non-empty
  \<open>pos_probs\<close>, \<open>calc_calibrated_accuracies\<close> is the accuracy estimator applied to
  \<open>y_true\<close> and the predictions \<open>pos_probs > threshold\<close>, where the threshold
  is the \<open>q\<close>-quantile of \<open>pos_probs\<close>; the threshold lies between the smallest
  and the largest entry of \<open>pos_probs\<close>.
\<close>

theorem calibrated_threshold_is_quantile:
  assumes "data y_true \<noteq> []" and "\<forall>l \<in> set (data y_true). l = 0 \<or> l = 1"
    and "data pos_probs \<noteq> []"
  shows "calc_calibrated_accuracies E y_true pos_probs =
           accuracy_ci E y_true
             (tensor_gt pos_probs
                (quantile_value (data pos_probs)
                   (sum_list (map real_of_int (data y_true)) / real (length (data y_true)))))
       \<and> Min (set (data pos_probs))
           \<le> quantile_value (data pos_probs)
                (sum_list (map real_of_int (data y_true)) / real (length (data y_true)))
       \<and> quantile_value (data pos_probs)
                (sum_list (map real_of_int (data y_true)) / real (length (data y_true)))
           \<le> Max (set (data pos_probs))"
  using assms binary_labels_mean [OF assms(1,2)]
    quantile_value_bounds [OF assms(3) binary_labels_mean [OF assms(1,2)]]
  by (simp add: calc_calibrated_accuracies_def quantile_def mean_all_def bind_err_simps)

theorem to_dict_key_order_witness:
  "map fst (to_dict \<lparr>accuracy = [(''estimate'', 1), (''lower'', 1), (''upper'', 1)],
                     cal_accuracy = Some [(''estimate'', 1)],
                     calibration = Some \<lparr>ece = 0\<rparr>,
                     roc_auc = [(''estimate'', 1), (''lower'', 1)]\<rparr> ''val_'')
   = [''val_auroc_estimate'', ''val_auroc_lower'', ''val_cal_acc_estimate'',
      ''val_acc_estimate'', ''val_acc_lower'', ''val_acc_upper'', ''val_ece'']"
  using to_dict_key_order [of "\<lparr>accuracy = [(''estimate'', 1), (''lower'', 1), (''upper'', 1)],
                     cal_accuracy = Some [(''estimate'', 1)],
                     calibration = Some \<lparr>ece = 0\<rparr>,
                     roc_auc = [(''estimate'', 1), (''lower'', 1)]\<rparr>" "''val_''"]
  by (simp add: metric_keys_def)

lemma eval_three_classes:
  "calc_eval_results shape_probe (Tensor [2] [0, 2]) (Tensor [2, 3] [1, 0, 0, 0, 0, 1]) ''full'' 3 =
     Inr \<lparr>accuracy = [(''estimate'', 1)], cal_accuracy = None, calibration = None,
          roc_auc = [(''rows'', 2), (''columns'', 3)]\<rparr>"
  by (simp add: calc_eval_results_def calc_accuracies_def argmax_last_def select_last_def
        calc_auroc_def to_one_hot_def shape_probe_def bind_err_simps upt_rec Let_def)

lemma eval_two_classes:
  "calc_eval_results shape_probe (Tensor [2] [1, 0]) (Tensor [2, 2] [0, 0, 0, 0]) ''full'' 2 =
     Inr \<lparr>accuracy = [(''estimate'', 1 / 2)], cal_accuracy = Some [(''estimate'', 1 / 2)],
          calibration = Some \<lparr>ece = 0\<rparr>, roc_auc = [(''rows'', 2), (''columns'', 1)]\<rparr>"
  by (simp add: calc_eval_results_def calc_accuracies_def argmax_last_def select_last_def
        calc_auroc_def shape_probe_def bind_err_simps upt_rec Let_def
        calc_calibrated_accuracies_def calc_calibrated_errors_def quantile_def quantile_value_def
        mean_all_def tensor_gt_def tensor_map_def tensor_sub_def sigmoid_zero flatten_all_def)

theorem calibration_fields_iff_binary_witness:
  "calc_eval_results shape_probe (Tensor [2] [0, 2]) (Tensor [2, 3] [1, 0, 0, 0, 0, 1]) ''full'' 3 =
     Inr \<lparr>accuracy = [(''estimate'', 1)], cal_accuracy = None, calibration = None,
          roc_auc = [(''rows'', 2), (''columns'', 3)]\<rparr>
   \<and> map fst (to_dict \<lparr>accuracy = [(''estimate'', 1)], cal_accuracy = None, calibration = None,
          roc_auc = [(''rows'', 2), (''columns'', 3)]\<rparr> '''') =
       [''auroc_rows'', ''auroc_columns'', ''acc_estimate'']
   \<and> calc_eval_results shape_probe (Tensor [2] [1, 0]) (Tensor [2, 2] [0, 0, 0, 0]) ''full'' 2 =
     Inr \<lparr>accuracy = [(''estimate'', 1 / 2)], cal_accuracy = Some [(''estimate'', 1 / 2)],
          calibration = Some \<lparr>ece = 0\<rparr>, roc_auc = [(''rows'', 2), (''columns'', 1)]\<rparr>
   \<and> ''ece'' \<in> set (map fst (to_dict \<lparr>accuracy = [(''estimate'', 1 / 2)],
          cal_accuracy = Some [(''estimate'', 1 / 2)],
          calibration = Some \<lparr>ece = 0\<rparr>, roc_auc = [(''rows'', 2), (''columns'', 1)]\<rparr> ''''))"
  using calibration_fields_iff_binary [OF eval_three_classes, of "''''"]
        calibration_fields_iff_binary [OF eval_two_classes, of "''''"]
        eval_three_classes eval_two_classes
  by (simp add: to_dict_def prefixed_def dict_of_items_def)

theorem calc_auroc_binary_pooled_witness:
  "calc_auroc shape_probe (Tensor [2, 2] [2, -2, -2, 2]) (Tensor [2] [0, 1]) ''full'' 2 =
     roc_auc_ci shape_probe (Tensor [2] [0, 1]) (Tensor [2] [-4, 4])"
  using calc_auroc_binary_pooled [of "''full''" "Tensor [2, 2] [2, -2, -2, 2]" shape_probe "Tensor [2] [0, 1]"]
  by (simp add: upt_rec)

theorem calc_auroc_none_flattens_from_1_witness:
  "calc_auroc shape_probe (Tensor [1, 2, 2] [2, -2, -2, 2]) (Tensor [1, 2] [0, 1]) ''none'' 2 =
     roc_auc_ci shape_probe (Tensor [1, 4] [1, 0, 0, 1]) (Tensor [1, 4] [2, -2, -2, 2])"
  using calc_auroc_none_flattens_from_1 [of "Tensor [1, 2] [0, 1]" 1 2 "Tensor [1, 2, 2] [2, -2, -2, 2]" 2 shape_probe]
  by (simp add: one_hot_row_def upt_rec)

theorem calibrated_threshold_is_quantile_witness:
  "calc_calibrated_accuracies shape_probe (Tensor [4] [0, 1, 1, 1]) (Tensor [4] [6 / 10, 9 / 10, 7 / 10, 8 / 10])
     = Inr [(''estimate'', 1 / 2)]
   \<and> quantile_value [6 / 10, 9 / 10, 7 / 10, 8 / 10] (3 / 4) = 33 / 40
   \<and> tensor_gt (Tensor [4] [6 / 10, 9 / 10, 7 / 10, 8 / 10]) (33 / 40) = Tensor [4] [0, 1, 0, 0]
   \<and> tensor_gt (Tensor [4] [6 / 10, 9 / 10, 7 / 10, 8 / 10]) (1 / 2) = Tensor [4] [1, 1, 1, 1]"
proof -
  have q: "quantile_value [6 / 10, 9 / 10, 7 / 10, 8 / 10] (3 / 4) = 33 / 40"
    by (simp add: quantile_value_def Let_def)
  show ?thesis
    using calibrated_threshold_is_quantile [of "Tensor [4] [0, 1, 1, 1]"
            "Tensor [4] [6 / 10, 9 / 10, 7 / 10, 8 / 10]" shape_probe] q
    by (simp add: tensor_gt_def shape_probe_def)
qed

section \<open>Properties of the floating-point rounding\<close>

lemma float32_zero: "float32 0 = 0"
  by (simp add: float32_def)

text \<open>
  A number between \<open>2^n\<close> and \<open>2^(n+1)\<close> is rounded to a multiple of
  \<open>2^n / 2^23\<close>.
\<close>

lemma float32_binade:
  assumes "2 ^ n \<le> \<bar>x\<bar>" and "\<bar>x\<bar> < 2 * 2 ^ n" and "n \<le> 126"
  shows "float32 x = of_int (round_half_even (x * 8388608 / 2 ^ n)) * 2 ^ n / 8388608"
proof -
  have "(2::real) ^ Suc n \<le> 2 ^ 127"
    using assms(3) by (intro power_increasing) simp_all
  with assms(2) have "\<bar>x\<bar> < 2 ^ 127" by simp
  then have fin: "\<not> 2 ^ 128 - 2 ^ 103 \<le> \<bar>x\<bar>" by simp
  have pos: "0 < \<bar>x\<bar>" using assms(1) by (smt (verit) zero_less_power)
  then have x0: "x \<noteq> 0" by simp
  have p: "(2::real) powr real n = 2 ^ n" by (simp add: powr_realpow)
  have lo: "real n \<le> log 2 \<bar>x\<bar>"
    using pos assms(1) by (simp add: le_log_iff p)
  have "(2::real) powr (real n + 1) = 2 * 2 ^ n" by (simp add: powr_add p)
  then have hi: "log 2 \<bar>x\<bar> < real n + 1"
    using pos assms(2) by (simp add: log_less_iff)
  from lo hi have fl: "\<lfloor>log 2 \<bar>x\<bar>\<rfloor> = int n" by linarith
  have u: "(2::real) powr (real n - 23) = 2 ^ n / 8388608"
    by (simp add: powr_diff p)
  show ?thesis
    using x0 fin by (simp add: float32_def fl Let_def u)
qed

section \<open>Properties of layer ensembling\<close>

lemma mean_dim_Inr: "mean_dim rnd d t = Inr m \<Longrightarrow> m = mean_axis rnd d t"
  by (auto simp: mean_dim_def split: if_splits)

lemma stack_Inr: "stack ts = Inr s \<Longrightarrow> s = stack_tensors ts"
  by (auto simp: stack_def split: if_splits)

lemma layer_loop_Inr:
  "layer_loop rnd outs means trues = Inr (ms, ts) \<Longrightarrow>
   ms = means @ map (\<lambda>lo. mean_axis rnd 1 (val_credences (hd lo))) outs \<and>
   ts = trues @ map (\<lambda>lo. val_gt (hd lo)) outs"
proof (induction outs arbitrary: means trues)
  case Nil
  then show ?case by simp
next
  case (Cons lo outs)
  from Cons.prems obtain out rest where lo: "lo = out # rest"
    by (cases lo) simp_all
  from Cons.prems lo obtain m where m: "mean_dim rnd 1 (val_credences out) = Inr m"
    and rec: "layer_loop rnd outs (means @ [m]) (trues @ [val_gt out]) = Inr (ms, ts)"
    by (auto simp: bind_err_Inr)
  from m have "m = mean_axis rnd 1 (val_credences out)" by (rule mean_dim_Inr)
  with Cons.IH [OF rec] lo show ?case by simp
qed

lemma layer_loop_ok:
  assumes "\<forall>lo \<in> set outs. lo \<noteq> [] \<and> shape (val_credences (hd lo)) = [n, v, k]" and "0 < v"
  shows "layer_loop rnd outs means trues =
         Inr (means @ map (\<lambda>lo. mean_axis rnd 1 (val_credences (hd lo))) outs,
              trues @ map (\<lambda>lo. val_gt (hd lo)) outs)"
  using assms(1)
proof (induction outs arbitrary: means trues)
  case Nil
  then show ?case by simp
next
  case (Cons lo outs)
  from Cons.prems obtain out rest where lo: "lo = out # rest"
    and sh: "shape (val_credences out) = [n, v, k]"
    by (cases lo) auto
  from sh assms(2) have m: "mean_dim rnd 1 (val_credences out) = Inr (mean_axis rnd 1 (val_credences out))"
    by (simp add: mean_dim_def)
  from Cons.prems have "\<forall>lo \<in> set outs. lo \<noteq> [] \<and> shape (val_credences (hd lo)) = [n, v, k]"
    by simp
  from Cons.IH [OF this] lo m show ?case by (simp add: bind_err_simps)
qed

lemma shape_mean_axis: "shape (mean_axis rnd d t) = take d (shape t) @ drop (Suc d) (shape t)"
  by (simp add: mean_axis_def Let_def)

lemma layer_ensembling_unfold:
  assumes "layer_loop rnd outs [] [] = Inr (ms, ts)"
  shows "layer_ensembling rnd E outs =
      (if outs = [] then Inl IndexError
       else if length (shape (val_credences (hd (hd outs)))) \<le> 2 then Inl IndexError
       else bind_err (stack (drop (length ts div 2) ms)) (\<lambda>y_logits_layers.
            bind_err (mean_dim rnd 0 y_logits_layers) (\<lambda>y_layer_logits_means.
            if length (drop (length ts div 2) ts) \<le> 2 then Inl IndexError
            else calc_eval_results E (drop (length ts div 2) ts ! 2) y_layer_logits_means ''full''
                   (shape (val_credences (hd (hd outs))) ! 2))))"
  using assms by (simp add: layer_ensembling_def bind_err_simps Let_def cong: if_cong)

lemma layer_ensembling_loop_fails:
  "layer_loop rnd outs [] [] = Inl e \<Longrightarrow> layer_ensembling rnd E outs = Inl e"
  by (simp add: layer_ensembling_def bind_err_simps)

lemma layer_ensembling_partial:
  assumes "layer_ensembling rnd E outs = Inr r"
  shows "layer_ensembling_spec rnd E outs = Inr r" and "5 \<le> length outs"
proof -
  let ?f = "\<lambda>lo. mean_axis rnd 1 (val_credences (hd lo))"
  let ?g = "\<lambda>lo. val_gt (hd lo)"
  let ?mid = "length outs div 2"
  from assms obtain ms ts where loop: "layer_loop rnd outs [] [] = Inr (ms, ts)"
    by (cases "layer_loop rnd outs [] []") (auto simp: layer_ensembling_loop_fails)
  from assms have rest: "(if outs = [] then Inl IndexError
       else if length (shape (val_credences (hd (hd outs)))) \<le> 2 then Inl IndexError
       else bind_err (stack (drop (length ts div 2) ms)) (\<lambda>y_logits_layers.
            bind_err (mean_dim rnd 0 y_logits_layers) (\<lambda>y_layer_logits_means.
            if length (drop (length ts div 2) ts) \<le> 2 then Inl IndexError
            else calc_eval_results E (drop (length ts div 2) ts ! 2) y_layer_logits_means ''full''
                   (shape (val_credences (hd (hd outs))) ! 2)))) = Inr r"
    by (simp only: layer_ensembling_unfold [OF loop])
  from layer_loop_Inr [OF loop] have ms: "ms = map ?f outs" and ts: "ts = map ?g outs" by simp_all
  have len: "length ts = length outs" by (simp add: ts)
  from rest obtain st avg where st: "stack (drop ?mid ms) = Inr st"
    and avg: "mean_dim rnd 0 st = Inr avg"
    and long: "\<not> length (drop ?mid ts) \<le> 2"
    and res: "calc_eval_results E (drop ?mid ts ! 2) avg ''full''
                (shape (val_credences (hd (hd outs))) ! 2) = Inr r"
    by (auto simp: Let_def bind_err_Inr len split: if_splits)
  from long show "5 \<le> length outs" by (simp add: len)
  from long have two: "2 < length (drop ?mid outs)" by (simp add: len)
  have st': "st = stack_tensors (map ?f (drop ?mid outs))"
    using stack_Inr [OF st] by (simp add: ms drop_map)
  have avg': "avg = mean_axis rnd 0 st" using avg by (rule mean_dim_Inr)
  have gt: "drop ?mid ts ! 2 = val_gt (hd (drop ?mid outs ! 2))"
    unfolding ts drop_map using two by (rule nth_map)
  from res show "layer_ensembling_spec rnd E outs = Inr r"
    by (simp add: layer_ensembling_spec_def Let_def st' avg' gt)
qed


lemma layer_ensembling_total:
  assumes wf: "\<forall>lo \<in> set outs. lo \<noteq> [] \<and> shape (val_credences (hd lo)) = [n, v, k]"
    and v: "0 < v" and ne: "outs \<noteq> []"
  shows "layer_ensembling rnd E outs =
         (if length outs < 5 then Inl IndexError else layer_ensembling_spec rnd E outs)"
proof -
  let ?f = "\<lambda>lo. mean_axis rnd 1 (val_credences (hd lo))"
  let ?g = "\<lambda>lo. val_gt (hd lo)"
  let ?mid = "length outs div 2"
  let ?later = "drop ?mid outs"
  have loop: "layer_loop rnd outs [] [] = Inr (map ?f outs, map ?g outs)"
    using layer_loop_ok [OF wf v, of rnd "[]" "[]"] by simp
  from ne have "hd outs \<in> set outs" by simp
  with wf have first: "shape (val_credences (hd (hd outs))) = [n, v, k]" by blast
  from ne have mid: "?mid < length outs" by simp
  then have later_ne: "?later \<noteq> []" by simp
  have shapes: "\<forall>t \<in> set (map ?f ?later). shape t = [n, k]"
  proof
    fix t assume "t \<in> set (map ?f ?later)"
    then obtain lo where "lo \<in> set ?later" and t: "t = ?f lo" by auto
    then have "lo \<in> set outs" by (auto dest: in_set_dropD)
    with wf have "shape (val_credences (hd lo)) = [n, v, k]" by blast
    with t show "shape t = [n, k]" by (simp add: shape_mean_axis)
  qed
  from later_ne have "map ?f ?later \<noteq> []" by simp
  then have "hd (map ?f ?later) \<in> set (map ?f ?later)" by (rule hd_in_set)
  with shapes have "shape (hd (map ?f ?later)) = [n, k]" by blast
  with shapes later_ne have st: "stack (map ?f ?later) = Inr (stack_tensors (map ?f ?later))"
    by (simp add: stack_def)
  have "shape (stack_tensors (map ?f ?later)) ! 0 = length outs - ?mid"
    by (simp add: stack_tensors_def)
  with mid have avg: "mean_dim rnd 0 (stack_tensors (map ?f ?later)) =
                 Inr (mean_axis rnd 0 (stack_tensors (map ?f ?later)))"
    by (simp add: mean_dim_def stack_tensors_def)
  have gt: "2 < length ?later \<Longrightarrow> map ?g ?later ! 2 = val_gt (hd (?later ! 2))"
    by (rule nth_map)
  show ?thesis
  proof (cases "length outs < 5")
    case True
    then have "length (drop ?mid (map ?g outs)) \<le> 2" by simp
    with True show ?thesis
      unfolding layer_ensembling_unfold [OF loop]
      using ne first st avg by (simp add: drop_map bind_err_simps)
  next
    case False
    then have two: "2 < length ?later" by simp
    then have long: "\<not> length (drop ?mid (map ?g outs)) \<le> 2" by simp
    have "layer_ensembling rnd E outs =
          calc_eval_results E (map ?g ?later ! 2) (mean_axis rnd 0 (stack_tensors (map ?f ?later)))
            ''full'' k"
      unfolding layer_ensembling_unfold [OF loop]
      using ne first st avg long by (simp add: drop_map bind_err_simps del: nth_drop)
    also have "\<dots> = layer_ensembling_spec rnd E outs"
      unfolding gt [OF two] using first by (simp add: layer_ensembling_spec_def Let_def del: nth_drop)
    finally show ?thesis using False by simp
  qed
qed


text \<open>
  Claim C2.  Whenever \<open>layer_ensembling\<close> returns a result, it is the result of
  scoring, with \<open>calc_eval_results\<close> in mode \<open>full\<close>, the depth-average of the
  stacked variant-averaged credences of the layers from index \<open>len div 2\<close> on,
  against the ground truth at index 2 of that later half.  For at least five layers
  whose credences have one shape \<open>(n, v, k)\<close> with \<open>v > 0\<close>, the two agree
  also when the scoring itself fails.
\<close>

theorem layer_ensembling_later_half:
  "(\<forall>r. layer_ensembling rnd E outs = Inr r \<longrightarrow> layer_ensembling_spec rnd E outs = Inr r)
   \<and> ((\<forall>lo \<in> set outs. lo \<noteq> [] \<and> shape (val_credences (hd lo)) = [n, v, k])
        \<and> 0 < v \<and> 5 \<le> length outs \<longrightarrow>
      layer_ensembling rnd E outs = layer_ensembling_spec rnd E outs)"
proof -
  have a: "\<forall>r. layer_ensembling rnd E outs = Inr r \<longrightarrow> layer_ensembling_spec rnd E outs = Inr r"
    by (auto dest: layer_ensembling_partial(1))
  have b: "(\<forall>lo \<in> set outs. lo \<noteq> [] \<and> shape (val_credences (hd lo)) = [n, v, k])
        \<and> 0 < v \<and> 5 \<le> length outs \<longrightarrow>
      layer_ensembling rnd E outs = layer_ensembling_spec rnd E outs"
  proof
    assume h: "(\<forall>lo \<in> set outs. lo \<noteq> [] \<and> shape (val_credences (hd lo)) = [n, v, k])
        \<and> 0 < v \<and> 5 \<le> length outs"
    then have "outs \<noteq> []" by auto
    with h layer_ensembling_total [of outs n v k rnd E]
    show "layer_ensembling rnd E outs = layer_ensembling_spec rnd E outs" by simp
  qed
  from a b show ?thesis by blast
qed

text \<open>
  Claim C10.  \<open>layer_ensembling\<close> returns a result only for at least five
  layers.  For one to four layers it fails; when the layers are well-shaped it fails
  with the IndexError of \<open>y_trues[2]\<close>.
\<close>

theorem layer_ensembling_needs_five_layers:
  "(\<forall>r. layer_ensembling rnd E outs = Inr r \<longrightarrow> 5 \<le> length outs)
   \<and> (1 \<le> length outs \<and> length outs \<le> 4 \<longrightarrow> (\<exists>e. layer_ensembling rnd E outs = Inl e))
   \<and> ((\<forall>lo \<in> set outs. lo \<noteq> [] \<and> shape (val_credences (hd lo)) = [n, v, k])
        \<and> 0 < v \<and> 1 \<le> length outs \<and> length outs \<le> 4 \<longrightarrow>
      layer_ensembling rnd E outs = Inl IndexError)"
proof -
  have a: "\<forall>r. layer_ensembling rnd E outs = Inr r \<longrightarrow> 5 \<le> length outs"
    by (auto dest: layer_ensembling_partial(2))
  have b: "1 \<le> length outs \<and> length outs \<le> 4 \<longrightarrow> (\<exists>e. layer_ensembling rnd E outs = Inl e)"
  proof
    assume "1 \<le> length outs \<and> length outs \<le> 4"
    with a have "\<forall>r. layer_ensembling rnd E outs \<noteq> Inr r" by auto
    then show "\<exists>e. layer_ensembling rnd E outs = Inl e"
      by (cases "layer_ensembling rnd E outs") auto
  qed
  have c: "(\<forall>lo \<in> set outs. lo \<noteq> [] \<and> shape (val_credences (hd lo)) = [n, v, k])
        \<and> 0 < v \<and> 1 \<le> length outs \<and> length outs \<le> 4 \<longrightarrow>
      layer_ensembling rnd E outs = Inl IndexError"
  proof
    assume h: "(\<forall>lo \<in> set outs. lo \<noteq> [] \<and> shape (val_credences (hd lo)) = [n, v, k])
        \<and> 0 < v \<and> 1 \<le> length outs \<and> length outs \<le> 4"
    then have "outs \<noteq> []" by auto
    with h layer_ensembling_total [of outs n v k rnd E]
    show "layer_ensembling rnd E outs = Inl IndexError" by simp
  qed
  from a b c show ?thesis by blast
qed

lemma upt_2: "[0..<2] = [0, 1]" by (simp add: upt_rec)
lemma upt_3: "[0..<3] = [0, 1, 2]" by (simp add: upt_rec)
lemma upt_1: "[0..<1] = [0]" by simp

lemma mean_constant: "mean_axis float32 1 (Tensor [1, 1, 2] [0, 0]) = Tensor [1, 2] [0, 0]"
  by (simp add: mean_axis_def float_mean_def float32_zero Let_def upt_2)

lemma mean_stack_constant:
  "mean_axis float32 0 (Tensor [3, 1, 2] [0, 0, 0, 0, 0, 0]) = Tensor [1, 2] [0, 0]"
  by (simp add: mean_axis_def float_mean_def float32_zero Let_def upt_2 upt_3)

lemma eval_constant:
  "calc_eval_results shape_probe (Tensor [1] [1]) (Tensor [1, 2] [0, 0]) ''full'' 2 =
     Inr \<lparr>accuracy = [(''estimate'', 0)], cal_accuracy = Some [(''estimate'', 0)],
          calibration = Some \<lparr>ece = 0\<rparr>, roc_auc = [(''rows'', 1), (''columns'', 1)]\<rparr>"
  by (simp add: calc_eval_results_def calc_accuracies_def argmax_last_def select_last_def
        calc_auroc_def shape_probe_def bind_err_simps Let_def
        calc_calibrated_accuracies_def calc_calibrated_errors_def quantile_def quantile_value_def
        mean_all_def tensor_gt_def tensor_map_def tensor_sub_def sigmoid_zero flatten_all_def)


lemma mean_constant_layer:
  "mean_axis float32 1 (val_credences (hd (constant_layer l))) = Tensor [1, 2] [0, 0]"
  unfolding constant_layer_def list.sel LayerOutput.simps by (rule mean_constant)

lemma five_constant_layers:
  "layer_ensembling_spec float32 shape_probe (map constant_layer [0, 0, 0, 0, 1]) =
     Inr \<lparr>accuracy = [(''estimate'', 0)], cal_accuracy = Some [(''estimate'', 0)],
          calibration = Some \<lparr>ece = 0\<rparr>, roc_auc = [(''rows'', 1), (''columns'', 1)]\<rparr>"
proof -
  have later: "drop (length (map constant_layer [0, 0, 0, 0, 1]) div 2) (map constant_layer [0, 0, 0, 0, 1])
        = [constant_layer 0, constant_layer 0, constant_layer 1]"
    by simp
  have st: "stack_tensors (map (\<lambda>lo. mean_axis float32 1 (val_credences (hd lo)))
              [constant_layer 0, constant_layer 0, constant_layer 1]) =
            Tensor [3, 1, 2] [0, 0, 0, 0, 0, 0]"
    unfolding stack_tensors_def list.map mean_constant_layer by simp
  have gt: "val_gt (hd ([constant_layer 0, constant_layer 0, constant_layer 1] ! 2)) = Tensor [1] [1]"
    by (simp add: constant_layer_def)
  have k: "shape (val_credences (hd (hd (map constant_layer [0, 0, 0, 0, 1])))) ! 2 = 2"
    by (simp add: constant_layer_def)
  show ?thesis
    unfolding layer_ensembling_spec_def Let_def later st gt k mean_stack_constant
    by (rule eval_constant)
qed

theorem layer_ensembling_later_half_witness:
  "layer_ensembling float32 shape_probe (map constant_layer [0, 0, 0, 0, 1]) =
     Inr \<lparr>accuracy = [(''estimate'', 0)], cal_accuracy = Some [(''estimate'', 0)],
          calibration = Some \<lparr>ece = 0\<rparr>, roc_auc = [(''rows'', 1), (''columns'', 1)]\<rparr>"
proof -
  have wf: "(\<forall>lo \<in> set (map constant_layer [0, 0, 0, 0, 1]).
              lo \<noteq> [] \<and> shape (val_credences (hd lo)) = [1, 1, 2])
            \<and> (0::nat) < 1 \<and> 5 \<le> length (map constant_layer [0, 0, 0, 0, 1])"
    by (simp add: constant_layer_def)
  from layer_ensembling_later_half [of float32 shape_probe "map constant_layer [0, 0, 0, 0, 1]" 1 1 2] wf
  have "layer_ensembling float32 shape_probe (map constant_layer [0, 0, 0, 0, 1]) =
        layer_ensembling_spec float32 shape_probe (map constant_layer [0, 0, 0, 0, 1])"
    by blast
  then show ?thesis by (simp only: five_constant_layers)
qed

theorem layer_ensembling_needs_five_layers_witness:
  "layer_ensembling float32 shape_probe (map constant_layer [0, 0, 1, 1]) = Inl IndexError
   \<and> layer_ensembling float32 shape_probe (map constant_layer [1]) = Inl IndexError"
proof -
  have wf4: "(\<forall>lo \<in> set (map constant_layer [0, 0, 1, 1]).
              lo \<noteq> [] \<and> shape (val_credences (hd lo)) = [1, 1, 2])
            \<and> (0::nat) < 1 \<and> 1 \<le> length (map constant_layer [0, 0, 1, 1])
            \<and> length (map constant_layer [0, 0, 1, 1]) \<le> 4"
    by (simp add: constant_layer_def)
  have wf1: "(\<forall>lo \<in> set (map constant_layer [1]).
              lo \<noteq> [] \<and> shape (val_credences (hd lo)) = [1, 1, 2])
            \<and> (0::nat) < 1 \<and> 1 \<le> length (map constant_layer [1])
            \<and> length (map constant_layer [1]) \<le> 4"
    by (simp add: constant_layer_def)
  from layer_ensembling_needs_five_layers [of float32 shape_probe "map constant_layer [0, 0, 1, 1]" 1 1 2] wf4
  have a: "layer_ensembling float32 shape_probe (map constant_layer [0, 0, 1, 1]) = Inl IndexError"
    by blast
  from layer_ensembling_needs_five_layers [of float32 shape_probe "map constant_layer [1]" 1 1 2] wf1
  have b: "layer_ensembling float32 shape_probe (map constant_layer [1]) = Inl IndexError"
    by blast
  from a b show ?thesis by simp
qed

section \<open>Properties of full ensembling\<close>

lemma mean_axis_single_variant:
  assumes "shape y = [n, 1, k]" and "length (data y) = n * k"
    and "\<forall>x \<in> set (data y). rnd x = x"
  shows "mean_axis rnd 1 y = Tensor [n, k] (data y)"
proof -
  have "map (\<lambda>q. float_mean rnd [data y ! q]) [0..<n * k] = map (\<lambda>q. data y ! q) [0..<n * k]"
  proof (rule map_cong [OF refl])
    fix q assume "q \<in> set [0..<n * k]"
    then have "data y ! q \<in> set (data y)" by (simp add: assms(2))
    with assms(3) have "rnd (data y ! q) = data y ! q" by blast
    then show "float_mean rnd [data y ! q] = data y ! q" by (simp add: float_mean_def)
  qed
  also have "\<dots> = data y" using map_nth [of "data y"] by (simp add: assms(2))
  finally have "map (\<lambda>q. float_mean rnd [data y ! (q div k * k + q mod k)]) [0..<n * k] = data y"
    by simp
  then show ?thesis using assms(1) by (simp add: mean_axis_def Let_def)
qed

lemma mean_axis_identical_variants:
  assumes "shape ys = [n, v, k]"
    and "\<forall>i < n. \<forall>j < v. \<forall>c < k. data ys ! ((i * v + j) * k + c) = x ! (i * k + c)"
    and "length x = n * k"
    and "\<forall>a \<in> set x. float_mean rnd (replicate v a) = a"
  shows "mean_axis rnd 1 ys = Tensor [n, k] x"
proof -
  have "map (\<lambda>q. float_mean rnd (map (\<lambda>j. data ys ! ((q div k * v + j) * k + q mod k)) [0..<v]))
            [0..<n * k] = map (\<lambda>q. x ! q) [0..<n * k]"
  proof (rule map_cong [OF refl])
    fix q assume "q \<in> set [0..<n * k]"
    then have q: "q < n * k" by simp
    then have k: "0 < k" by (cases k) simp_all
    from q have i: "q div k < n" by (simp add: less_mult_imp_div_less)
    from k have c: "q mod k < k" by simp
    have "map (\<lambda>j. data ys ! ((q div k * v + j) * k + q mod k)) [0..<v] =
          map (\<lambda>j. x ! q) [0..<v]"
    proof (rule map_cong [OF refl])
      fix j assume "j \<in> set [0..<v]"
      then have "j < v" by simp
      with assms(2) i c have "data ys ! ((q div k * v + j) * k + q mod k) = x ! (q div k * k + q mod k)"
        by blast
      then show "data ys ! ((q div k * v + j) * k + q mod k) = x ! q" by simp
    qed
    also have "\<dots> = replicate v (x ! q)" by (simp add: map_replicate_const)
    finally have "map (\<lambda>j. data ys ! ((q div k * v + j) * k + q mod k)) [0..<v] = replicate v (x ! q)" .
    moreover from q have "x ! q \<in> set x" by (simp add: assms(3))
    ultimately show "float_mean rnd (map (\<lambda>j. data ys ! ((q div k * v + j) * k + q mod k)) [0..<v]) = x ! q"
      using assms(4) by simp
  qed
  also have "\<dots> = x" using map_nth [of x] by (simp add: assms(3))
  finally show ?thesis using assms(1) by (simp add: mean_axis_def Let_def)
qed

text \<open>In exact arithmetic the mean of \<open>v > 0\<close> copies of a number is the number.\<close>

lemma foldl_add_replicate: "foldl (\<lambda>acc x. acc + x) a (replicate v (x::real)) = a + real v * x"
  by (induction v arbitrary: a) (simp_all add: algebra_simps)

lemma float_mean_exact: "0 < v \<Longrightarrow> float_mean id (replicate v x) = x"
  by (simp add: float_mean_def foldl_add_replicate)

text \<open>
  Claim C9 (as amended).  For logits of shape \<open>(n, 1, k)\<close> and a tensor of shape
  \<open>(n, v, k)\<close>, \<open>v > 0\<close>, whose every variant repeats them, \<open>evaluate_preds\<close>
  in mode \<open>full\<close> gives the same outcome on both, provided that the mean of
  \<open>v\<close> copies of each logit, as the floating-point arithmetic computes it, is that
  logit again (and that the logits are numbers of the floating-point format).
\<close>

theorem full_ensembling_identical_variants:
  assumes "shape y_logits = [n, 1, k]" and "length (data y_logits) = n * k"
    and "shape repeated = [n, v, k]" and "0 < v"
    and "\<forall>i < n. \<forall>j < v. \<forall>c < k.
           data repeated ! ((i * v + j) * k + c) = data y_logits ! (i * k + c)"
    and "\<forall>x \<in> set (data y_logits). rnd x = x \<and> float_mean rnd (replicate v x) = x"
  shows "evaluate_preds rnd E y_true repeated ''full'' = evaluate_preds rnd E y_true y_logits ''full''"
proof -
  from assms(6) have exact: "\<forall>x \<in> set (data y_logits). rnd x = x"
    and means: "\<forall>x \<in> set (data y_logits). float_mean rnd (replicate v x) = x"
    by simp_all
  have a: "mean_axis rnd (Suc 0) repeated = Tensor [n, k] (data y_logits)"
    using mean_axis_identical_variants [OF assms(3,5,2) means] by simp
  have b: "mean_axis rnd (Suc 0) y_logits = Tensor [n, k] (data y_logits)"
    using mean_axis_single_variant [OF assms(1,2) exact] by simp
  have ma: "mean_dim rnd (Suc 0) repeated = Inr (mean_axis rnd (Suc 0) repeated)"
    using assms(3,4) by (simp add: mean_dim_def)
  have mb: "mean_dim rnd (Suc 0) y_logits = Inr (mean_axis rnd (Suc 0) y_logits)"
    using assms(1) by (simp add: mean_dim_def)
  show ?thesis
    using assms(1,3) by (simp add: evaluate_preds_def ma mb a b)
qed

text \<open>The rounding of the numbers that occur in the scenarios.\<close>

lemma float32_scenario:
  "float32 2 = 2" "float32 4 = 4" "float32 6 = 6"
  "float32 (- 2) = - 2" "float32 (- 4) = - 4" "float32 (- 6) = - 6"
  using float32_binade [of 1 2] float32_binade [of 2 4] float32_binade [of 2 6]
        float32_binade [of 1 "- 2"] float32_binade [of 2 "- 4"] float32_binade [of 2 "- 6"]
  by (simp_all add: round_half_even_def)

lemma float32_near_tie:
  "float32 (7605407 / 4194304) = 7605407 / 4194304"
  "float32 (7605407 / 2097152) = 7605407 / 2097152"
  "float32 (22816221 / 4194304) = 5704055 / 1048576"
  "float32 (5704055 / 3145728) = 15210813 / 8388608"
  "float32 (15210813 / 8388608) = 15210813 / 8388608"
  "float32 (15210813 / 4194304) = 15210813 / 4194304"
  "float32 (45632439 / 8388608) = 5704055 / 1048576"
  using float32_binade [of 0 "7605407 / 4194304"] float32_binade [of 1 "7605407 / 2097152"]
        float32_binade [of 2 "22816221 / 4194304"] float32_binade [of 0 "5704055 / 3145728"]
        float32_binade [of 0 "15210813 / 8388608"] float32_binade [of 1 "15210813 / 4194304"]
        float32_binade [of 2 "45632439 / 8388608"]
  by (simp_all add: round_half_even_def)

lemma float_mean_scenario:
  "float_mean float32 [2, 2, 2] = 2" "float_mean float32 [- 2, - 2, - 2] = - 2"
  by (simp_all add: float_mean_def float32_scenario)

text \<open>
  In float32 the mean of three copies of \<open>15210814 / 2^23\<close> is
  \<open>15210813 / 2^23\<close>: the sum of the three is a tie between two float32 numbers
  and is rounded down.
\<close>

lemma float_mean_near_tie:
  "float_mean float32 [7605407 / 4194304, 7605407 / 4194304, 7605407 / 4194304] = 15210813 / 8388608"
  "float_mean float32 [15210813 / 8388608, 15210813 / 8388608, 15210813 / 8388608] = 15210813 / 8388608"
  by (simp_all add: float_mean_def float32_near_tie)

lemma upt_4: "[0..<4] = [0, 1, 2, 3]" by (simp add: upt_rec)

lemma separated_identical:
  "\<forall>i < 4. \<forall>j < 3. \<forall>c < 2.
     data separated_repeated ! ((i * 3 + j) * 2 + c) = data separated_single ! (i * 2 + c)"
  by (simp add: separated_repeated_def separated_single_def All_less_Suc numeral_eq_Suc)

lemma separated_means:
  "\<forall>x \<in> set (data separated_single). float32 x = x \<and> float_mean float32 (replicate 3 x) = x"
  by (simp add: separated_single_def float32_scenario float_mean_scenario numeral_3_eq_3)

lemma separated_mean_dim:
  "mean_dim float32 1 separated_repeated = Inr (Tensor [4, 2] [2, -2, -2, 2, 2, -2, -2, 2])"
proof -
  have s2: "shape separated_repeated = [4, 3, 2]" by (simp add: separated_repeated_def)
  have l1: "length (data separated_single) = 4 * 2" by (simp add: separated_single_def)
  from separated_means
  have m: "\<forall>a \<in> set (data separated_single). float_mean float32 (replicate 3 a) = a" by blast
  have "mean_axis float32 1 separated_repeated = Tensor [4, 2] (data separated_single)"
    using s2 separated_identical l1 m by (rule mean_axis_identical_variants)
  then show ?thesis using s2 by (simp add: mean_dim_def separated_single_def)
qed

lemma separated_scores:
  "map_sum id accuracy (calc_eval_results point_estimates (Tensor [4] [0, 1, 0, 1])
       (Tensor [4, 2] [2, -2, -2, 2, 2, -2, -2, 2]) ''full'' 2) = Inr [(''estimate'', 1)]"
  "map_sum id roc_auc (calc_eval_results point_estimates (Tensor [4] [0, 1, 0, 1])
       (Tensor [4, 2] [2, -2, -2, 2, 2, -2, -2, 2]) ''full'' 2) = Inr [(''estimate'', 1)]"
  by (simp_all add: calc_eval_results_def calc_accuracies_def argmax_last_def select_last_def
        calc_auroc_def point_estimates_def shape_probe_def bind_err_simps Let_def auroc_def
        calc_calibrated_accuracies_def calc_calibrated_errors_def quantile_def
        mean_all_def tensor_map_def tensor_sub_def flatten_all_def upt_2 upt_4)

theorem full_ensembling_identical_variants_witness:
  "evaluate_preds float32 point_estimates (Tensor [4] [0, 1, 0, 1]) separated_repeated ''full'' =
     evaluate_preds float32 point_estimates (Tensor [4] [0, 1, 0, 1]) separated_single ''full''
   \<and> map_sum id accuracy
         (evaluate_preds float32 point_estimates (Tensor [4] [0, 1, 0, 1]) separated_repeated ''full'')
       = Inr [(''estimate'', 1)]
   \<and> map_sum id roc_auc
         (evaluate_preds float32 point_estimates (Tensor [4] [0, 1, 0, 1]) separated_repeated ''full'')
       = Inr [(''estimate'', 1)]"
proof -
  have s1: "shape separated_single = [4, 1, 2]" by (simp add: separated_single_def)
  have l1: "length (data separated_single) = 4 * 2" by (simp add: separated_single_def)
  have s2: "shape separated_repeated = [4, 3, 2]" by (simp add: separated_repeated_def)
  have v: "(0::nat) < 3" by simp
  have eq: "evaluate_preds float32 point_estimates (Tensor [4] [0, 1, 0, 1]) separated_repeated ''full'' =
     evaluate_preds float32 point_estimates (Tensor [4] [0, 1, 0, 1]) separated_single ''full''"
    using s1 l1 s2 v separated_identical separated_means by (rule full_ensembling_identical_variants)
  have "evaluate_preds float32 point_estimates (Tensor [4] [0, 1, 0, 1]) separated_repeated ''full'' =
        calc_eval_results point_estimates (Tensor [4] [0, 1, 0, 1])
          (Tensor [4, 2] [2, -2, -2, 2, 2, -2, -2, 2]) ''full'' 2"
    using s2 by (simp add: evaluate_preds_def separated_mean_dim [unfolded One_nat_def] bind_err_simps)
  with eq separated_scores show ?thesis by simp
qed

text \<open>
  The near-tie tensors are logits of shape \<open>(2, 1, 2)\<close> and their repetition into
  three identical variants.
\<close>

lemma near_tie_identical:
  "shape near_tie_single = [2, 1, 2] \<and> shape near_tie_repeated = [2, 3, 2]
   \<and> (\<forall>i < 2. \<forall>j < 3. \<forall>c < 2.
         data near_tie_repeated ! ((i * 3 + j) * 2 + c) = data near_tie_single ! (i * 2 + c))"
  by (simp add: near_tie_repeated_def near_tie_single_def All_less_Suc numeral_eq_Suc)

lemma near_tie_single_mean:
  "mean_dim float32 1 near_tie_single =
     Inr (Tensor [2, 2] [2, -2, 15210813 / 8388608, 7605407 / 4194304])"
proof -
  have "mean_axis float32 1 near_tie_single = Tensor [2, 2] (data near_tie_single)"
    by (rule mean_axis_single_variant)
       (simp_all add: near_tie_single_def float32_scenario float32_near_tie)
  then show ?thesis by (simp add: mean_dim_def near_tie_single_def)
qed

lemma near_tie_repeated_mean:
  "mean_dim float32 1 near_tie_repeated =
     Inr (Tensor [2, 2] [2, -2, 15210813 / 8388608, 15210813 / 8388608])"
  by (simp add: mean_dim_def mean_axis_def near_tie_repeated_def Let_def upt_3 upt_4
        float_mean_scenario float_mean_near_tie)

lemma near_tie_accuracy:
  "map_sum id accuracy (calc_eval_results point_estimates (Tensor [2] [0, 1])
       (Tensor [2, 2] [2, -2, 15210813 / 8388608, 7605407 / 4194304]) ''full'' 2) = Inr [(''estimate'', 1)]"
  "map_sum id accuracy (calc_eval_results point_estimates (Tensor [2] [0, 1])
       (Tensor [2, 2] [2, -2, 15210813 / 8388608, 15210813 / 8388608]) ''full'' 2) = Inr [(''estimate'', 1 / 2)]"
  by (simp_all add: calc_eval_results_def calc_accuracies_def argmax_last_def select_last_def
        calc_auroc_def point_estimates_def shape_probe_def bind_err_simps Let_def
        calc_calibrated_accuracies_def calc_calibrated_errors_def quantile_def
        mean_all_def tensor_map_def tensor_sub_def flatten_all_def upt_2)

text \<open>
  Claim C9 as stated fails in float32: on the near-tie logits the mean of the three
  identical variants of the second example is \<open>[15210813 / 2^23, 15210813 / 2^23]\<close>,
  the arg-max moves from class 1 to class 0, and the accuracy is 1/2 on the repeated
  tensor against 1 on the original.
\<close>

theorem full_ensembling_float32_counterexample:
  "evaluate_preds float32 point_estimates (Tensor [2] [0, 1]) near_tie_repeated ''full'' \<noteq>
     evaluate_preds float32 point_estimates (Tensor [2] [0, 1]) near_tie_single ''full''
   \<and> map_sum id accuracy
         (evaluate_preds float32 point_estimates (Tensor [2] [0, 1]) near_tie_single ''full'')
       = Inr [(''estimate'', 1)]
   \<and> map_sum id accuracy
         (evaluate_preds float32 point_estimates (Tensor [2] [0, 1]) near_tie_repeated ''full'')
       = Inr [(''estimate'', 1 / 2)]"
proof -
  have a: "evaluate_preds float32 point_estimates (Tensor [2] [0, 1]) near_tie_single ''full'' =
        calc_eval_results point_estimates (Tensor [2] [0, 1])
          (Tensor [2, 2] [2, -2, 15210813 / 8388608, 7605407 / 4194304]) ''full'' 2"
    using near_tie_identical
    by (simp add: evaluate_preds_def near_tie_single_mean [unfolded One_nat_def] bind_err_simps)
  have b: "evaluate_preds float32 point_estimates (Tensor [2] [0, 1]) near_tie_repeated ''full'' =
        calc_eval_results point_estimates (Tensor [2] [0, 1])
          (Tensor [2, 2] [2, -2, 15210813 / 8388608, 15210813 / 8388608]) ''full'' 2"
    using near_tie_identical
    by (simp add: evaluate_preds_def near_tie_repeated_mean [unfolded One_nat_def] bind_err_simps)
  have one: "map_sum id accuracy
         (evaluate_preds float32 point_estimates (Tensor [2] [0, 1]) near_tie_single ''full'')
       = Inr [(''estimate'', 1)]"
    unfolding a by (rule near_tie_accuracy(1))
  have half: "map_sum id accuracy
         (evaluate_preds float32 point_estimates (Tensor [2] [0, 1]) near_tie_repeated ''full'')
       = Inr [(''estimate'', 1 / 2)]"
    unfolding b by (rule near_tie_accuracy(2))
  have "evaluate_preds float32 point_estimates (Tensor [2] [0, 1]) near_tie_repeated ''full'' \<noteq>
     evaluate_preds float32 point_estimates (Tensor [2] [0, 1]) near_tie_single ''full''"
  proof
    assume "evaluate_preds float32 point_estimates (Tensor [2] [0, 1]) near_tie_repeated ''full'' =
     evaluate_preds float32 point_estimates (Tensor [2] [0, 1]) near_tie_single ''full''"
    with one half show False by simp
  qed
  with one half show ?thesis by simp
qed

end
